theory Spec2Isabelle
  imports Main "HOL-Library.Char_ord" "HOL-Library.List_Lexorder"
begin

text \<open>
  The Cppcheck plugin for Qt Creator: the runner that queues files, starts the
  analyzer with its arguments inline or through two scratch files, and turns the
  lines of its standard error into findings (\<open>CppcheckRunner.cpp\<close>); and the slot
  of the options page that shows the analyzer's help text (\<open>OptionsWidget.cpp\<close>).
  The runner is a record; each slot and public function is a function on it; what
  it does to the log, the process, the timer, the scratch files and its listeners is
  appended to the trace \<open>effects\<close>.
\<close>

section \<open>Qt string and list primitives used by the plugin\<close>

text \<open>
  A \<open>QString\<close> is modelled as a \<open>string\<close>: one \<open>char\<close> per \<open>QChar\<close>, restricted to
  the Latin-1 range, so \<open>toLatin1\<close> and \<open>fromUtf8\<close> are the identity. Lengths and
  indices are C++ \<open>int\<close>s; they are modelled as unbounded \<open>int\<close>/\<open>nat\<close> (a string
  of more than \<open>2^31\<close> characters is out of the model). The functions of this section
  are Qt library functions; they are written after Qt 5's documented behaviour.
\<close>

text \<open>\<open>QStringList::join (sep)\<close>.\<close>

fun QStringList_join :: "string \<Rightarrow> string list \<Rightarrow> string" where
  "QStringList_join sep [] = []"
| "QStringList_join sep [x] = x"
| "QStringList_join sep (x # y # ys) = x @ sep @ QStringList_join sep (y # ys)"

text \<open>\<open>QString::split (c)\<close>, keeping empty parts: the result is never empty.\<close>

fun QString_split :: "char \<Rightarrow> string \<Rightarrow> string list" where
  "QString_split c [] = [[]]"
| "QString_split c (x # xs) =
     (if x = c then [] # QString_split c xs
      else (let r = QString_split c xs in (x # hd r) # tl r))"

text \<open>\<open>QString::split (c, QString::SkipEmptyParts)\<close>.\<close>

definition QString_split_skipEmpty :: "char \<Rightarrow> string \<Rightarrow> string list" where
  "QString_split_skipEmpty c s = filter (\<lambda>w. w \<noteq> []) (QString_split c s)"

text \<open>\<open>QChar::isSpace\<close> on the Latin-1 range, and \<open>QString::trimmed\<close>.\<close>

definition isSpace :: "char \<Rightarrow> bool" where
  "isSpace c = (c \<in> {CHR 0x09, CHR 0x0A, CHR 0x0B, CHR 0x0C, CHR 0x0D, CHR 0x20, CHR 0x85, CHR 0xA0})"

definition QString_trimmed :: "string \<Rightarrow> string" where
  "QString_trimmed s = rev (dropWhile isSpace (rev (dropWhile isSpace s)))"

text \<open>\<open>QString::startsWith\<close> and \<open>QString::indexOf (needle)\<close>: the position of the
  first occurrence searching forward from position 0, or \<open>-1\<close>.\<close>

definition startsWith :: "string \<Rightarrow> string \<Rightarrow> bool" where
  "startsWith s needle = (take (length needle) s = needle)"

fun QString_indexOf :: "string \<Rightarrow> string \<Rightarrow> int" where
  "QString_indexOf [] needle = (if needle = [] then 0 else - 1)"
| "QString_indexOf (c # cs) needle =
     (if startsWith (c # cs) needle then 0
      else (let r = QString_indexOf cs needle in if r < 0 then - 1 else r + 1))"

text \<open>
  \<open>QString::mid (position, n)\<close>, with the clamping of
  \<open>QContainerImplHelper::mid\<close>: a position beyond the end gives the null string; a
  negative position is clamped to 0 and the length shortened by as much (the whole
  string when \<open>n\<close> is negative or reaches the end, the null string when nothing is
  left); \<open>n\<close> negative or too large means "to the end".
\<close>

definition QString_mid :: "string \<Rightarrow> int \<Rightarrow> int \<Rightarrow> string" where
  "QString_mid s position n =
     (let size = int (length s) in
      if position > size then []
      else if position < 0 then
        (if n < 0 \<or> n + position \<ge> size then s
         else if n + position \<le> 0 then []
         else take (nat (n + position)) s)
      else if n < 0 \<or> n > size - position then drop (nat position) s
      else take (nat n) (drop (nat position) s))"

text \<open>\<open>QString::mid (position)\<close>: the default length is \<open>-1\<close>.\<close>

definition QString_mid_from :: "string \<Rightarrow> int \<Rightarrow> string" where
  "QString_mid_from s position = QString_mid s position (- 1)"

text \<open>
  \<open>QString::at (i)\<close> as the released Qt library runs it, its \<open>Q_ASSERT\<close> on the
  index compiled out: the character at \<open>i\<close>, and at \<open>i = size\<close> the terminating
  NUL that the data of every \<open>QString\<close> ends with. The runner calls it with
  \<open>i = 0\<close> only.
\<close>

definition QString_at :: "string \<Rightarrow> nat \<Rightarrow> char" where
  "QString_at s i = (if i < length s then s ! i else CHR 0x00)"

text \<open>
  \<open>QString::toInt ()\<close> in base 10: surrounding white space is skipped, one sign is
  allowed, and the result is 0 when the text is not a number or does not fit a
  32-bit \<open>int\<close>.
\<close>

definition isDigit :: "char \<Rightarrow> bool" where
  "isDigit c = (CHR ''0'' \<le> c \<and> c \<le> CHR ''9'')"

definition digitValue :: "char \<Rightarrow> int" where
  "digitValue c = int (of_char c) - 48"

definition decimalValue :: "string \<Rightarrow> int" where
  "decimalValue ds = foldl (\<lambda>acc c. 10 * acc + digitValue c) 0 ds"

definition QString_toInt :: "string \<Rightarrow> int" where
  "QString_toInt s =
     (let t = QString_trimmed s;
          neg = (t \<noteq> [] \<and> hd t = CHR ''-'');
          ds = (if t \<noteq> [] \<and> (hd t = CHR ''-'' \<or> hd t = CHR ''+'') then tl t else t)
      in if ds = [] \<or> \<not> list_all isDigit ds then 0
         else (let v = (if neg then - decimalValue ds else decimalValue ds)
               in if - 2147483648 \<le> v \<and> v \<le> 2147483647 then v else 0))"

text \<open>
  \<open>QDir::fromNativeSeparators\<close>: on Windows every backslash becomes a slash; on
  the other platforms the path is returned as it is. The platform is a parameter.
\<close>

definition QDir_fromNativeSeparators :: "bool \<Rightarrow> string \<Rightarrow> string" where
  "QDir_fromNativeSeparators windows p =
     (if windows then map (\<lambda>c. if c = CHR 0x5C then CHR ''/'' else c) p else p)"

text \<open>\<open>QStringList::removeDuplicates\<close>: the first occurrence of each string stays,
  in place (Qt keeps a set of the strings seen so far).\<close>

fun removeDuplicates_seen :: "string list \<Rightarrow> string list \<Rightarrow> string list" where
  "removeDuplicates_seen seen [] = []"
| "removeDuplicates_seen seen (x # xs) =
     (if x \<in> set seen then removeDuplicates_seen seen xs
      else x # removeDuplicates_seen (x # seen) xs)"

definition removeDuplicates :: "string list \<Rightarrow> string list" where
  "removeDuplicates xs = removeDuplicates_seen [] xs"

section \<open>The runner's state\<close>

text \<open>The settings object the runner reads (\<open>Settings\<close>, owned by the plugin).\<close>

record settings =
  binaryFile :: string
  customParameters :: string
  ignoreIncludePaths :: bool
  checkUnused :: bool
  checkInconclusive :: bool
  showBinaryOutput :: bool
  showId :: bool

text \<open>A \<open>QTemporaryFile\<close>: its name (empty until it has been opened once) and its
  bytes.\<close>

record scratch_file =
  fileName :: string
  contents :: string

datatype scratch = FileList | IncludeList

text \<open>
  Everything the runner does to the outside, in order: messages to the IDE's log,
  emitted signals, calls on the process, the single-shot timer and the two scratch
  files, and calls on the progress handle.
\<close>

datatype effect =
    LogWrite string
  | StartedChecking "string list"
  | NewTask char string string string int
  | ProcessStart string "string list"
  | ProcessStartIgnored
  | ProcessKill
  | ProcessClose
  | TimerSingleShot nat
  | FileResize scratch
  | FileOpen scratch bool
  | FileWrite scratch string
  | FileClose scratch
  | ProgressCreated
  | ReportFinished

record runner =
  settingsOf :: settings
  showOutput :: bool
  showIdFlag :: bool
  runArguments :: "string list"
  includePaths :: "string list"
  fileCheckQueue :: "string list"
  currentlyCheckingFiles :: "string list"
  fileListFileContents :: "string list"
  fileListFile :: scratch_file
  includeListFile :: scratch_file
  processIsOpen :: bool
  queueTimerActive :: bool
  futureInterface :: bool
  maxArgumentsLength :: int
  effects :: "effect list"

text \<open>
  What the surroundings decide at a dispatch: the macro expander's result, and for
  each scratch file whether \<open>open ()\<close> succeeds and with which file name.
\<close>

record env =
  expand :: "string \<Rightarrow> string"
  fileListOpen :: "string option"
  includeListOpen :: "string option"

datatype fault = PreconditionViolation

definition emit :: "effect \<Rightarrow> runner \<Rightarrow> runner" where
  "emit e s = s\<lparr>effects := effects s @ [e]\<rparr>"

section \<open>\<open>CppcheckRunner\<close>\<close>

text \<open>\<open>setIncludePaths\<close>: clear, then append \<open>-I\<close> + path for each path.\<close>

definition setIncludePaths :: "string list \<Rightarrow> runner \<Rightarrow> runner" where
  "setIncludePaths paths s =
     foldl (\<lambda>r i. r\<lparr>includePaths := includePaths r @ [''-I'' @ i]\<rparr>)
       (s\<lparr>includePaths := []\<rparr>) paths"


text \<open>
  \<open>updateSettings\<close>. The loop over \<open>runArguments_\<close> that looks for a user-given
  \<open>--enable\<close> runs on the list just cleared, so it never finds one. \<open>threads\<close> is
  the text of \<open>QString::number (QThread::idealThreadCount ())\<close>.
\<close>

definition updateSettings :: "string \<Rightarrow> runner \<Rightarrow> runner" where
  "updateSettings threads s =
     (let enabled = ''--enable=warning,style,performance,portability,information,missingInclude'';
          enabled' = (if checkUnused (settingsOf s) then enabled @ '',unusedFunction'' else enabled);
          args1 = (if checkUnused (settingsOf s) then [] else [''-j '' @ threads]);
          args2 = args1 @ [enabled'];
          args3 = (if checkInconclusive (settingsOf s) then args2 @ [''--inconclusive''] else args2)
      in s\<lparr>showOutput := showBinaryOutput (settingsOf s),
            showIdFlag := showId (settingsOf s),
            runArguments := args3 @ [''--template={file},{line},{severity},{id},{message}'']\<rparr>)"

text \<open>
  \<open>checkFiles\<close>. \<open>Q_ASSERT (!fileNames.isEmpty ())\<close> is the fault
  \<open>PreconditionViolation\<close>. \<open>queueTimer_.singleShot (...)\<close> is the static
  \<open>QTimer::singleShot\<close>: it schedules one call of \<open>checkQueuedFiles\<close> and leaves
  \<open>queueTimer_\<close> itself inactive.
\<close>

definition checkFiles :: "string list \<Rightarrow> runner \<Rightarrow> fault + runner" where
  "checkFiles fileNames s =
     (if fileNames = [] then Inl PreconditionViolation
      else
        (let s1 = s\<lparr>fileCheckQueue := sort (removeDuplicates (fileCheckQueue s @ fileNames))\<rparr>
         in if processIsOpen s1 then
              (if fileCheckQueue s1 = currentlyCheckingFiles s1 then Inr (emit ProcessKill s1)
               else Inr s1)
            else if \<not> queueTimerActive s1 then Inr (emit (TimerSingleShot 200) s1)
            else Inr s1))"

definition stopChecking :: "runner \<Rightarrow> runner" where
  "stopChecking s =
     (let s1 = s\<lparr>fileCheckQueue := []\<rparr>
      in if processIsOpen s1 then emit ProcessKill s1 else s1)"

text \<open>
  \<open>QProcess::start\<close>: a process that is still open is left alone (Qt warns and
  returns); otherwise the device is opened and the program started.
\<close>

definition process_start :: "string \<Rightarrow> string list \<Rightarrow> runner \<Rightarrow> runner" where
  "process_start program arguments s =
     (if processIsOpen s then emit ProcessStartIgnored s
      else (emit (ProcessStart program arguments) s)\<lparr>processIsOpen := True\<rparr>)"

text \<open>The end of \<open>checkQueuedFiles\<close>: the signal, the log line, the start.\<close>

definition launch :: "string \<Rightarrow> string list \<Rightarrow> runner \<Rightarrow> runner" where
  "launch binary arguments s =
     (let s1 = emit (StartedChecking (currentlyCheckingFiles s)) s;
          s2 = (if showOutput s1
                then emit (LogWrite (''Starting CppChecker with:'' @ binary @ '', ''
                                      @ QStringList_join '' '' arguments)) s1
                else s1)
      in process_start binary arguments s2)"

text \<open>\<open>resize (0)\<close> on both scratch files.\<close>

definition resizeFiles :: "runner \<Rightarrow> runner" where
  "resizeFiles s =
     s\<lparr>fileListFile := (fileListFile s)\<lparr>contents := []\<rparr>,
       includeListFile := (includeListFile s)\<lparr>contents := []\<rparr>,
       effects := effects s @ [FileResize FileList, FileResize IncludeList]\<rparr>"

definition named :: "string \<Rightarrow> scratch_file \<Rightarrow> scratch_file" where
  "named n f = (if fileName f = [] then f\<lparr>fileName := n\<rparr> else f)"

text \<open>\<open>fileListFile_.open () && includeListFile_.open ()\<close>: the second file is
  opened only when the first one did open.\<close>

definition openFiles :: "env \<Rightarrow> runner \<Rightarrow> bool \<times> runner" where
  "openFiles e s =
     (case fileListOpen e of
        None \<Rightarrow> (False, emit (FileOpen FileList False) s)
      | Some n \<Rightarrow>
          (let s1 = emit (FileOpen FileList True) (s\<lparr>fileListFile := named n (fileListFile s)\<rparr>)
           in case includeListOpen e of
                None \<Rightarrow> (False, emit (FileOpen IncludeList False) s1)
              | Some m \<Rightarrow>
                  (True, emit (FileOpen IncludeList True)
                           (s1\<lparr>includeListFile := named m (includeListFile s1)\<rparr>))))"

text \<open>The two writes: the files joined by newlines, then the includes, each
  without its first two characters (\<open>i.mid (2)\<close>), joined by newlines.\<close>

definition writeFiles :: "string list \<Rightarrow> runner \<Rightarrow> runner" where
  "writeFiles includes s =
     (let filesArg = QStringList_join [CHR 0x0A] (fileListFileContents s);
          includesArg = QStringList_join [CHR 0x0A] (map (\<lambda>i. QString_mid_from i 2) includes)
      in s\<lparr>fileListFile := (fileListFile s)\<lparr>contents := filesArg\<rparr>,
            includeListFile := (includeListFile s)\<lparr>contents := includesArg\<rparr>,
            effects := effects s @ [FileWrite FileList filesArg, FileClose FileList,
                                    FileWrite IncludeList includesArg, FileClose IncludeList]\<rparr>)"

text \<open>The argument list before the files: the expanded custom parameters split at
  blanks, then \<open>runArguments_\<close>; and the include flags of this dispatch.\<close>

definition baseArguments :: "env \<Rightarrow> runner \<Rightarrow> string list" where
  "baseArguments e s =
     QString_split_skipEmpty CHR '' '' (expand e (customParameters (settingsOf s)))
       @ runArguments s"

definition includesOf :: "runner \<Rightarrow> string list" where
  "includesOf s = (if \<not> ignoreIncludePaths (settingsOf s) then includePaths s else [])"

text \<open>\<open>argumentLength + includesLength + filesLength\<close>: each of the three lists is
  joined by blanks on its own, and the three lengths are added.\<close>

definition argumentsLength :: "env \<Rightarrow> runner \<Rightarrow> int" where
  "argumentsLength e s =
     int (length (QStringList_join '' '' (baseArguments e s)))
       + int (length (QStringList_join '' '' (includesOf s)))
       + int (length (QStringList_join '' '' (fileCheckQueue s)))"

definition spillArguments :: "runner \<Rightarrow> string list" where
  "spillArguments s =
     [''--file-list='' @ fileName (fileListFile s),
      ''--includes-file='' @ fileName (includeListFile s)]"

definition checkQueuedFiles :: "env \<Rightarrow> runner \<Rightarrow> runner" where
  "checkQueuedFiles e s =
     (if fileCheckQueue s = [] then s
      else
        (let binary = binaryFile (settingsOf s) in
         if binary = [] then s
         else
           (let arguments = baseArguments e s;
                includes = includesOf s;
                total = argumentsLength e s;
                s1 = s\<lparr>currentlyCheckingFiles := fileCheckQueue s, fileCheckQueue := []\<rparr>
            in if total \<ge> maxArgumentsLength s1 then
                 (if fileListFileContents s1 \<noteq> currentlyCheckingFiles s1 then
                    (let s2 = resizeFiles (s1\<lparr>fileListFileContents := currentlyCheckingFiles s1\<rparr>)
                     in case openFiles e s2 of
                          (True, s3) \<Rightarrow>
                            (let s4 = writeFiles includes s3
                             in launch binary (arguments @ spillArguments s4) s4)
                        | (False, s3) \<Rightarrow>
                            emit (LogWrite (''Failed to write cppcheck'' @ [CHR 0x27]
                                            @ ''s argument files'')) s3)
                  else launch binary (arguments @ spillArguments s1) s1)
               else launch binary (arguments @ currentlyCheckingFiles s1 @ includes) s1)))"

text \<open>\<open>started\<close>, \<open>finished\<close> and \<open>error\<close>, the slots for the process's signals.\<close>

definition started :: "runner \<Rightarrow> runner" where
  "started s =
     (let s1 = (if showOutput s then emit (LogWrite ''Cppcheck started'') s else s)
      in (emit ProgressCreated s1)\<lparr>futureInterface := True\<rparr>)"

definition finished :: "int \<Rightarrow> runner \<Rightarrow> runner" where
  "finished exitCode s =
     (let s1 = (if futureInterface s then emit ReportFinished s else s);
          s2 = (emit ProcessClose s1)\<lparr>processIsOpen := False\<rparr>
      in if showOutput s2 then emit (LogWrite ''Cppcheck finished'') s2 else s2)"

datatype ProcessError = FailedToStart | Crashed | Timedout | ReadError | WriteError | UnknownError

definition error :: "ProcessError \<Rightarrow> runner \<Rightarrow> runner" where
  "error err s =
     (let s1 = (if showOutput s then emit (LogWrite ''Cppcheck error occured'') s else s)
      in if err = FailedToStart then finished (- 1) s1 else s1)"

text \<open>
  The signal \<open>QProcess::finished\<close> is connected to \<open>finished\<close> and then to
  \<open>checkQueuedFiles\<close>; the slots run in the order of connection. The signal
  \<open>QProcess::errorOccurred\<close> is connected to \<open>error\<close> only, and Qt does not emit
  \<open>finished\<close> for a process that failed to start. The single-shot timer calls
  \<open>checkQueuedFiles\<close>.
\<close>

definition on_process_finished :: "int \<Rightarrow> env \<Rightarrow> runner \<Rightarrow> runner" where
  "on_process_finished exitCode e s = checkQueuedFiles e (finished exitCode s)"

definition on_process_errorOccurred :: "ProcessError \<Rightarrow> runner \<Rightarrow> runner" where
  "on_process_errorOccurred err s = error err s"

definition on_timer :: "env \<Rightarrow> runner \<Rightarrow> runner" where
  "on_timer e s = checkQueuedFiles e s"

text \<open>
  \<open>readError\<close>, for one line read from the standard error channel, and for all
  the lines that can be read. No branch of it fails, so the result is always
  \<open>Inr\<close>. The severity is \<open>details.at (ErrorFieldSeverity).at (0)\<close>, taken without
  a test that the third field has a character.
\<close>

definition readErrorLine :: "bool \<Rightarrow> string \<Rightarrow> runner \<Rightarrow> fault + runner" where
  "readErrorLine windows rawLine s =
     (let line = QString_trimmed rawLine in
      if line = [] then Inr s
      else
        (let s1 = (if showOutput s then emit (LogWrite line) s else s);
             details = QString_split CHR '','' line
         in if length details \<le> 4 then Inr s1
            else
              (let file = QDir_fromNativeSeparators windows (details ! 0);
                   lineNumber = QString_toInt (details ! 1);
                   type = QString_at (details ! 2) 0;
                   ident = (if showIdFlag s1 then details ! 3 else []);
                   description = QString_mid_from line (QString_indexOf line (details ! 4))
               in Inr (emit (NewTask type ident description file lineNumber) s1))))"

fun readError :: "bool \<Rightarrow> string list \<Rightarrow> runner \<Rightarrow> fault + runner" where
  "readError windows [] s = Inr s"
| "readError windows (l # ls) s =
     (case readErrorLine windows l s of
        Inl f \<Rightarrow> Inl f
      | Inr s' \<Rightarrow> readError windows ls s')"

text \<open>The findings (\<open>newTask\<close> signals) and the process starts in a trace.\<close>

fun isNewTask :: "effect \<Rightarrow> bool" where
  "isNewTask (NewTask t i d f l) = True"
| "isNewTask _ = False"

fun isProcessStart :: "effect \<Rightarrow> bool" where
  "isProcessStart (ProcessStart b a) = True"
| "isProcessStart _ = False"

fun isStartedChecking :: "effect \<Rightarrow> bool" where
  "isStartedChecking (StartedChecking fs) = True"
| "isStartedChecking _ = False"

fun isFileEffect :: "effect \<Rightarrow> bool" where
  "isFileEffect (FileResize f) = True"
| "isFileEffect (FileOpen f ok) = True"
| "isFileEffect (FileWrite f d) = True"
| "isFileEffect (FileClose f) = True"
| "isFileEffect _ = False"

section \<open>\<open>OptionsWidget\<close>\<close>

definition helpArg :: string where
  "helpArg = ''--help''"

text \<open>
  \<open>OptionsWidget::finished\<close>: \<open>Some text\<close> when a text editor is created, filled
  with \<open>text\<close> and shown; \<open>None\<close> when the slot returns without showing anything.
\<close>

definition OptionsWidget_finished :: "string list \<Rightarrow> string \<Rightarrow> string option" where
  "OptionsWidget_finished processArguments output =
     (let outputString = QString_trimmed output in
      if helpArg \<in> set processArguments then
        (let startIndex = QString_indexOf outputString ''Options:'';
             endIndex = QString_indexOf outputString ''Example usage:''
         in if startIndex \<ge> endIndex then None
            else Some (QString_mid outputString startIndex (endIndex - startIndex)))
      else None)"

section \<open>A concrete session\<close>

text \<open>
  The states below are reached from the constructor by the runner's own operations.
  Every request in them is a non-empty list, so \<open>checkFiles\<close> returns \<open>Inr\<close> and
  \<open>projr\<close> takes the state out of it.
\<close>

text \<open>
  The constructor: every field empty or off, and the ceiling
  \<open>max (argMax, 32000)\<close> on Linux (\<open>Some argMax\<close>: what \<open>getconf ARG_MAX\<close>
  printed, read by \<open>toInt\<close>), \<open>32767\<close> elsewhere (\<open>None\<close>).
\<close>

definition CppcheckRunner :: "int option \<Rightarrow> settings \<Rightarrow> runner" where
  "CppcheckRunner argMax st =
     \<lparr>settingsOf = st, showOutput = False, showIdFlag = False, runArguments = [],
      includePaths = [], fileCheckQueue = [], currentlyCheckingFiles = [],
      fileListFileContents = [],
      fileListFile = \<lparr>fileName = [], contents = []\<rparr>,
      includeListFile = \<lparr>fileName = [], contents = []\<rparr>,
      processIsOpen = False, queueTimerActive = False, futureInterface = False,
      maxArgumentsLength = (case argMax of Some a \<Rightarrow> max a 32000 | None \<Rightarrow> 32767),
      effects = []\<rparr>"

definition cfg :: settings where
  "cfg = \<lparr>binaryFile = ''/usr/bin/cppcheck'', customParameters = ''--std=c++11  -q'',
          ignoreIncludePaths = False, checkUnused = False, checkInconclusive = True,
          showBinaryOutput = False, showId = True\<rparr>"

definition env_ok :: env where
  "env_ok = \<lparr>expand = (\<lambda>x. x), fileListOpen = Some ''/tmp/qtc.a'',
             includeListOpen = Some ''/tmp/qtc.b''\<rparr>"

definition env_fail :: env where
  "env_fail = \<lparr>expand = (\<lambda>x. x), fileListOpen = Some ''/tmp/qtc.a'',
               includeListOpen = None\<rparr>"

text \<open>The arguments before the files in this session: the two custom parameters
  and what \<open>updateSettings\<close> built.\<close>

definition session_arguments :: "string list" where
  "session_arguments =
     [''--std=c++11'', ''-q'', ''-j 4'',
      ''--enable=warning,style,performance,portability,information,missingInclude'',
      ''--inconclusive'', ''--template={file},{line},{severity},{id},{message}'']"

text \<open>An include directory long enough to reach the ceiling on its own.\<close>

definition bigdir :: string where
  "bigdir = replicate 32767 (CHR ''d'')"

text \<open>A runner with its settings read, idle; and the same with the long include
  directory set.\<close>

definition idle :: runner where
  "idle = updateSettings ''4'' (CppcheckRunner None cfg)"

definition idle_big :: runner where
  "idle_big = setIncludePaths [bigdir] idle"

text \<open>\<open>a.cpp\<close> requested and dispatched inline; \<open>b.cpp\<close> requested before the
  process has reported that it started; the same once it has.\<close>

definition queued_a :: runner where
  "queued_a = projr (checkFiles [''a.cpp''] idle)"

definition starting_a :: runner where
  "starting_a = on_timer env_ok queued_a"

definition starting_a_queued_b :: runner where
  "starting_a_queued_b = projr (checkFiles [''b.cpp''] starting_a)"

definition running_a :: runner where
  "running_a = started starting_a"

definition running_a_queued_b :: runner where
  "running_a_queued_b = projr (checkFiles [''b.cpp''] running_a)"

text \<open>The long include directory set while the run over \<open>a.cpp\<close> is in flight.\<close>

definition running_a_big :: runner where
  "running_a_big = setIncludePaths [bigdir] running_a"

text \<open>\<open>a.cpp\<close> requested with the long include directory; dispatched through the
  scratch files; that run finished.\<close>

definition queued_big :: runner where
  "queued_big = projr (checkFiles [''a.cpp''] idle_big)"

definition spilled_a :: runner where
  "spilled_a = on_timer env_ok queued_big"

definition spilled_a_done :: runner where
  "spilled_a_done = on_process_finished 0 env_ok (started spilled_a)"


text \<open>After that finished run, a second include directory is set and \<open>a.cpp\<close>
  requested again; or the include directories stay and \<open>b.cpp\<close> is requested.\<close>

definition queued_a_again :: runner where
  "queued_a_again =
     projr (checkFiles [''a.cpp''] (setIncludePaths [bigdir, ''/opt/include''] spilled_a_done))"

definition queued_b_after :: runner where
  "queued_b_after = projr (checkFiles [''b.cpp''] spilled_a_done)"

text \<open>\<open>a.cpp\<close> requested with the long include directory, the include-list file
  failing to open at the dispatch; and \<open>a.cpp\<close> requested once more after that.\<close>

definition failed_big :: runner where
  "failed_big = on_timer env_fail queued_big"

definition requeued_big :: runner where
  "requeued_big = projr (checkFiles [''a.cpp''] failed_big)"

section \<open>Facts about the string primitives\<close>

lemma split_nonempty: "QString_split c s \<noteq> []"
  by (induction s) (simp_all add: Let_def)

lemma hd_split_prefix: "\<exists>post. s = hd (QString_split c s) @ post"
  by (induction s) (auto simp: Let_def)

lemma split_member_substring:
  "x \<in> set (QString_split c s) \<Longrightarrow> \<exists>pre post. s = pre @ x @ post"
proof (induction s arbitrary: x)
  case Nil
  then show ?case by simp
next
  case (Cons a s)
  show ?case
  proof (cases "a = c")
    case True
    with Cons.prems have "x = [] \<or> x \<in> set (QString_split c s)" by simp
    then show ?thesis
    proof
      assume "x = []"
      then have "a # s = [] @ x @ (a # s)" by simp
      then show ?thesis by blast
    next
      assume "x \<in> set (QString_split c s)"
      then obtain pre post where "s = pre @ x @ post" using Cons.IH by blast
      then have "a # s = (a # pre) @ x @ post" by simp
      then show ?thesis by blast
    qed
  next
    case False
    with Cons.prems have "x = a # hd (QString_split c s) \<or> x \<in> set (tl (QString_split c s))"
      by (simp add: Let_def)
    then show ?thesis
    proof
      assume x: "x = a # hd (QString_split c s)"
      obtain post where "s = hd (QString_split c s) @ post" using hd_split_prefix by blast
      with x have "a # s = [] @ x @ post" by simp
      then show ?thesis by blast
    next
      assume "x \<in> set (tl (QString_split c s))"
      then have "x \<in> set (QString_split c s)" by (meson list.set_sel(2) split_nonempty)
      then obtain pre post where "s = pre @ x @ post" using Cons.IH by blast
      then have "a # s = (a # pre) @ x @ post" by simp
      then show ?thesis by blast
    qed
  qed
qed

lemma indexOf_range: "- 1 \<le> QString_indexOf s n \<and> QString_indexOf s n \<le> int (length s)"
  by (induction s) (auto simp: Let_def)

lemma indexOf_occurs: "s = pre @ n @ post \<Longrightarrow> 0 \<le> QString_indexOf s n"
proof (induction pre arbitrary: s)
  case Nil
  then have "startsWith s n" by (simp add: startsWith_def)
  then show ?case by (cases s) (auto simp: startsWith_def)
next
  case (Cons a pre)
  then show ?case by (auto simp: Let_def)
qed

lemma indexOf_startsWith:
  "0 \<le> QString_indexOf s n \<Longrightarrow> startsWith (drop (nat (QString_indexOf s n)) s) n"
proof (induction s)
  case Nil
  then show ?case by (auto simp: startsWith_def split: if_splits)
next
  case (Cons a s)
  then show ?case
    by (auto simp: Let_def nat_add_distrib split: if_splits)
qed

lemma indexOf_first:
  "0 \<le> QString_indexOf s n \<Longrightarrow> j < nat (QString_indexOf s n) \<Longrightarrow> \<not> startsWith (drop j s) n"
proof (induction s arbitrary: j)
  case Nil
  then show ?case by (auto split: if_splits)
next
  case (Cons a s)
  show ?case
  proof (cases "startsWith (a # s) n")
    case True
    with Cons.prems show ?thesis by simp
  next
    case False
    with Cons.prems have r: "0 \<le> QString_indexOf s n" and
      eq: "QString_indexOf (a # s) n = QString_indexOf s n + 1"
      by (auto simp: Let_def split: if_splits)
    show ?thesis
    proof (cases j)
      case 0
      with False show ?thesis by simp
    next
      case (Suc k)
      with Cons.prems eq r have "k < nat (QString_indexOf s n)" by simp
      with Cons.IH r have "\<not> startsWith (drop k s) n" by blast
      with Suc show ?thesis by simp
    qed
  qed
qed

lemma mid_from_in_range:
  "0 \<le> p \<Longrightarrow> p \<le> int (length s) \<Longrightarrow> QString_mid_from s p = drop (nat p) s"
  by (simp add: QString_mid_from_def QString_mid_def)


lemma split_field_found:
  assumes "i < length (QString_split c s)"
  shows "0 \<le> QString_indexOf s (QString_split c s ! i)"
proof -
  from assms have "QString_split c s ! i \<in> set (QString_split c s)" by simp
  then obtain pre post where "s = pre @ (QString_split c s ! i) @ post"
    using split_member_substring by blast
  then show ?thesis by (rule indexOf_occurs)
qed

section \<open>The idle runner of the concrete session\<close>

lemma idle_eq:
  "idle = \<lparr>settingsOf = cfg, showOutput = False, showIdFlag = True,
            runArguments = [''-j 4'',
              ''--enable=warning,style,performance,portability,information,missingInclude'',
              ''--inconclusive'', ''--template={file},{line},{severity},{id},{message}''],
            includePaths = [], fileCheckQueue = [], currentlyCheckingFiles = [],
            fileListFileContents = [],
            fileListFile = \<lparr>fileName = [], contents = []\<rparr>,
            includeListFile = \<lparr>fileName = [], contents = []\<rparr>,
            processIsOpen = False, queueTimerActive = False, futureInterface = False,
            maxArgumentsLength = 32767, effects = []\<rparr>"
  by (simp add: idle_def updateSettings_def CppcheckRunner_def cfg_def)

section \<open>Include paths\<close>

lemma setIncludePaths_foldl:
  "includePaths (foldl (\<lambda>r i. r\<lparr>includePaths := includePaths r @ [''-I'' @ i]\<rparr>) r0 paths)
     = includePaths r0 @ map (\<lambda>i. ''-I'' @ i) paths"
  by (induction paths arbitrary: r0) simp_all

text \<open>
  C10. Every call of \<open>setIncludePaths paths\<close> replaces the stored include flags:
  afterwards they are exactly \<open>-I\<close> prepended to each element of \<open>paths\<close>, in order,
  whatever was stored before (so also after any earlier calls).
\<close>

theorem setIncludePaths_replaces:
  "includePaths (setIncludePaths paths s) = map (\<lambda>i. ''-I'' @ i) paths"
  unfolding setIncludePaths_def setIncludePaths_foldl by simp

section \<open>Findings read from the standard error channel\<close>

lemma example_line_trimmed:
  "QString_trimmed ''/a/b.c,42,error,nullPointer,msg, with comma''
     = ''/a/b.c,42,error,nullPointer,msg, with comma''"
  by (simp add: QString_trimmed_def isSpace_def)

lemma example_line_split:
  "QString_split CHR '','' ''/a/b.c,42,error,nullPointer,msg, with comma''
     = [''/a/b.c'', ''42'', ''error'', ''nullPointer'', ''msg'', '' with comma'']"
  by (simp add: Let_def)

lemma example_line_index:
  "QString_indexOf ''/a/b.c,42,error,nullPointer,msg, with comma'' ''msg'' = 28"
  by (simp add: startsWith_def Let_def)

lemma example_toInt: "QString_toInt ''42'' = 42"
  by (simp add: QString_toInt_def QString_trimmed_def isSpace_def isDigit_def decimalValue_def
      digitValue_def Let_def)

text \<open>
  For every standard-error line whose trimmed text splits at commas into at least
  five fields, \<open>readErrorLine\<close> emits one finding: the file is the first field with
  the native separators turned into slashes, the line number is \<open>toInt\<close> of the
  second field, the severity is what \<open>at (0)\<close> gives on the third field (its first
  character when it has one), the id is the fourth field when show-id is on and
  empty otherwise, and the message is the line from position \<open>k\<close> to its end, where
  \<open>k\<close> is the first position at which the text of the fifth field occurs in the
  line (so the commas after it are kept). The line of the specification's example
  follows.
\<close>

lemma at_first: "f \<noteq> [] \<Longrightarrow> QString_at f 0 = hd f"
  by (cases f) (simp_all add: QString_at_def)

lemma readErrorLine_emits:
  assumes "5 \<le> length (QString_split CHR '','' (QString_trimmed rawLine))"
  shows "readErrorLine windows rawLine s =
           Inr (emit (NewTask (QString_at (QString_split CHR '','' (QString_trimmed rawLine) ! 2) 0)
                        (if showIdFlag s then QString_split CHR '','' (QString_trimmed rawLine) ! 3 else [])
                        (drop (nat (QString_indexOf (QString_trimmed rawLine)
                                     (QString_split CHR '','' (QString_trimmed rawLine) ! 4)))
                           (QString_trimmed rawLine))
                        (QDir_fromNativeSeparators windows
                           (QString_split CHR '','' (QString_trimmed rawLine) ! 0))
                        (QString_toInt (QString_split CHR '','' (QString_trimmed rawLine) ! 1)))
                  (if showOutput s then emit (LogWrite (QString_trimmed rawLine)) s else s))
       \<and> startsWith (drop (nat (QString_indexOf (QString_trimmed rawLine)
                                   (QString_split CHR '','' (QString_trimmed rawLine) ! 4)))
                         (QString_trimmed rawLine))
                      (QString_split CHR '','' (QString_trimmed rawLine) ! 4)
       \<and> (\<forall>j < nat (QString_indexOf (QString_trimmed rawLine)
                                   (QString_split CHR '','' (QString_trimmed rawLine) ! 4)).
             \<not> startsWith (drop j (QString_trimmed rawLine))
                  (QString_split CHR '','' (QString_trimmed rawLine) ! 4))"
proof -
  let ?line = "QString_trimmed rawLine"
  let ?details = "QString_split CHR '','' ?line"
  let ?k = "QString_indexOf ?line (?details ! 4)"
  from assms(1) have found: "0 \<le> ?k" by (intro split_field_found) simp
  have upper: "?k \<le> int (length ?line)" using indexOf_range by blast
  have mid: "QString_mid_from ?line ?k = drop (nat ?k) ?line"
    using found upper by (rule mid_from_in_range)
  have nonempty: "?line \<noteq> []"
  proof
    assume "?line = []"
    then have "?details = [[]]" by simp
    with assms(1) show False by simp
  qed
  have run: "readErrorLine windows rawLine s =
           Inr (emit (NewTask (QString_at (?details ! 2) 0)
                        (if showIdFlag s then ?details ! 3 else [])
                        (drop (nat ?k) ?line)
                        (QDir_fromNativeSeparators windows (?details ! 0))
                        (QString_toInt (?details ! 1)))
                  (if showOutput s then emit (LogWrite ?line) s else s))"
    using assms nonempty mid by (simp add: readErrorLine_def Let_def emit_def)
  have sw: "startsWith (drop (nat ?k) ?line) (?details ! 4)"
    using found by (rule indexOf_startsWith)
  have first: "\<forall>j < nat ?k. \<not> startsWith (drop j ?line) (?details ! 4)"
    using found indexOf_first by blast
  from run sw first show ?thesis by blast
qed

lemma readErrorLine_example:
  "readErrorLine False ''/a/b.c,42,error,nullPointer,msg, with comma'' idle
       = Inr (emit (NewTask CHR ''e'' ''nullPointer'' ''msg, with comma'' ''/a/b.c'' 42) idle)
   \<and> readErrorLine False ''/a/b.c,42,error,nullPointer,msg, with comma'' (idle\<lparr>showIdFlag := False\<rparr>)
       = Inr (emit (NewTask CHR ''e'' [] ''msg, with comma'' ''/a/b.c'' 42)
                (idle\<lparr>showIdFlag := False\<rparr>))"
proof -
  let ?l = "''/a/b.c,42,error,nullPointer,msg, with comma''"
  have fields: "QString_split CHR '','' (QString_trimmed ?l)
      = [''/a/b.c'', ''42'', ''error'', ''nullPointer'', ''msg'', '' with comma'']"
    by (simp only: example_line_trimmed example_line_split)
  have h1: "5 \<le> length (QString_split CHR '','' (QString_trimmed ?l))"
    unfolding fields by simp
  have flags: "showIdFlag idle" "\<not> showOutput idle"
    by (simp_all add: idle_eq)
  have r1: "readErrorLine False ?l idle
       = Inr (emit (NewTask CHR ''e'' ''nullPointer'' ''msg, with comma'' ''/a/b.c'' 42) idle)"
    using readErrorLine_emits [OF h1, of False idle, THEN conjunct1]
    unfolding fields example_line_trimmed
    by (simp add: flags example_line_index example_toInt QDir_fromNativeSeparators_def
        QString_at_def del: QString_indexOf.simps)
  have r2: "readErrorLine False ?l (idle\<lparr>showIdFlag := False\<rparr>)
       = Inr (emit (NewTask CHR ''e'' [] ''msg, with comma'' ''/a/b.c'' 42) (idle\<lparr>showIdFlag := False\<rparr>))"
    using readErrorLine_emits [OF h1, of False "idle\<lparr>showIdFlag := False\<rparr>", THEN conjunct1]
    unfolding fields example_line_trimmed
    by (simp add: flags example_line_index example_toInt QDir_fromNativeSeparators_def
        QString_at_def del: QString_indexOf.simps)
  from r1 r2 show ?thesis by blast
qed

lemma empty_severity_toInt: "QString_toInt ''1'' = 1"
  by (simp add: QString_toInt_def QString_trimmed_def isSpace_def isDigit_def decimalValue_def
      digitValue_def Let_def)

text \<open>
  C6, evaluated on a line of five fields whose third field is empty. The code takes
  \<open>at (0)\<close> of that field with no test: the finding it emits has the NUL behind the
  empty field's data as its severity, where the claim asks for the first character
  of the third field.
\<close>

theorem readErrorLine_empty_severity:
  "QString_split CHR '','' (QString_trimmed ''a.c,1,,id,msg'') = [''a.c'', ''1'', [], ''id'', ''msg'']
   \<and> readErrorLine False ''a.c,1,,id,msg'' idle
       = Inr (emit (NewTask (CHR 0x00) ''id'' ''msg'' ''a.c'' 1) idle)"
proof -
  have t: "QString_trimmed ''a.c,1,,id,msg'' = ''a.c,1,,id,msg''"
    by (simp add: QString_trimmed_def isSpace_def)
  have sp: "QString_split CHR '','' ''a.c,1,,id,msg'' = [''a.c'', ''1'', [], ''id'', ''msg'']"
    by (simp add: Let_def)
  have ix: "QString_indexOf ''a.c,1,,id,msg'' ''msg'' = 10"
    by (simp add: startsWith_def Let_def)
  have flags: "showIdFlag idle" "\<not> showOutput idle"
    by (simp_all add: idle_eq)
  have "readErrorLine False ''a.c,1,,id,msg'' idle
       = Inr (emit (NewTask (CHR 0x00) ''id'' ''msg'' ''a.c'' 1) idle)"
    unfolding readErrorLine_def t sp Let_def
    by (simp add: flags ix empty_severity_toInt QString_at_def QDir_fromNativeSeparators_def
        QString_mid_from_def QString_mid_def del: QString_indexOf.simps)
  then show ?thesis unfolding t sp by simp
qed

text \<open>
  C7. A standard-error line whose trimmed text splits at commas into fewer than five
  fields is discarded: \<open>readErrorLine\<close> returns without a fault, emits no finding,
  and changes nothing but the log, to which the line is echoed when the output
  display is on.
\<close>

theorem readErrorLine_short_discarded:
  assumes "length (QString_split CHR '','' (QString_trimmed rawLine)) < 5"
  shows "readErrorLine windows rawLine s =
           Inr (if showOutput s \<and> QString_trimmed rawLine \<noteq> []
                then emit (LogWrite (QString_trimmed rawLine)) s else s)
       \<and> filter isNewTask (effects (projr (readErrorLine windows rawLine s)))
           = filter isNewTask (effects s)"
  using assms by (simp add: readErrorLine_def Let_def emit_def)

theorem readErrorLine_short_discarded_witness:
  "length (QString_split CHR '','' (QString_trimmed ''a.c,12,error'')) < 5
   \<and> readErrorLine False ''a.c,12,error'' idle = Inr idle"
  using readErrorLine_short_discarded [of "''a.c,12,error''" False idle]
  by (simp add: QString_trimmed_def isSpace_def Let_def idle_eq)

section \<open>The help text of the options page\<close>

text \<open>
  What \<open>OptionsWidget::finished\<close> does by the positions of the two markers: with
  \<open>Options:\<close> found before \<open>Example usage:\<close> the text from the first marker up
  to the second is shown; with \<open>Example usage:\<close> not after \<open>Options:\<close> (both
  missing, the second missing, or the wrong order) nothing is shown; with
  \<open>Options:\<close> missing and \<open>Example usage:\<close> found an editor is shown all the same.
\<close>

lemma OptionsWidget_finished_between:
  assumes "helpArg \<in> set args"
    and "0 \<le> QString_indexOf (QString_trimmed out) ''Options:''"
    and "QString_indexOf (QString_trimmed out) ''Options:''
           < QString_indexOf (QString_trimmed out) ''Example usage:''"
  shows "OptionsWidget_finished args out =
           Some (take (nat (QString_indexOf (QString_trimmed out) ''Example usage:''
                            - QString_indexOf (QString_trimmed out) ''Options:''))
                   (drop (nat (QString_indexOf (QString_trimmed out) ''Options:''))
                      (QString_trimmed out)))"
proof -
  have "QString_indexOf (QString_trimmed out) ''Example usage:'' \<le> int (length (QString_trimmed out))"
    using indexOf_range by blast
  with assms show ?thesis
    by (simp add: OptionsWidget_finished_def QString_mid_def Let_def del: QString_indexOf.simps)
qed

lemma OptionsWidget_finished_nothing:
  assumes "QString_indexOf (QString_trimmed out) ''Example usage:''
             \<le> QString_indexOf (QString_trimmed out) ''Options:''"
  shows "OptionsWidget_finished args out = None"
  using assms by (simp add: OptionsWidget_finished_def Let_def del: QString_indexOf.simps)

lemma OptionsWidget_finished_missing_start:
  assumes "helpArg \<in> set args"
    and "QString_indexOf (QString_trimmed out) ''Options:'' = - 1"
    and "0 \<le> QString_indexOf (QString_trimmed out) ''Example usage:''"
  shows "OptionsWidget_finished args out \<noteq> None"
  using assms by (simp add: OptionsWidget_finished_def Let_def del: QString_indexOf.simps)

text \<open>
  C9, evaluated on a help output that has the marker \<open>Example usage:\<close> and not the
  marker \<open>Options:\<close>: the first index is \<open>-1\<close>, the guard
  \<open>startIndex >= endIndex\<close> does not hold, and an editor is shown with the text
  before \<open>Example usage:\<close>.
\<close>

theorem OptionsWidget_finished_without_Options:
  "QString_indexOf (QString_trimmed ''cppcheck help\<newline>Example usage: cppcheck src'') ''Options:'' = - 1
   \<and> QString_indexOf (QString_trimmed ''cppcheck help\<newline>Example usage: cppcheck src'') ''Example usage:'' = 14
   \<and> OptionsWidget_finished [helpArg] ''cppcheck help\<newline>Example usage: cppcheck src''
       = Some ''cppcheck help\<newline>''"
  by (simp add: OptionsWidget_finished_def QString_trimmed_def isSpace_def startsWith_def
      QString_mid_def Let_def helpArg_def)

section \<open>The scheduler\<close>

subsection \<open>What a launch changes, and the four ways through a dispatch\<close>

text \<open>A launch keeps the queue, the file set in flight and the scratch files; it
  adds one \<open>startedChecking\<close> and, when no process is open, one process start.\<close>

lemma launch_fields:
  "fileCheckQueue (launch b a s) = fileCheckQueue s"
  "currentlyCheckingFiles (launch b a s) = currentlyCheckingFiles s"
  "fileListFileContents (launch b a s) = fileListFileContents s"
  "fileListFile (launch b a s) = fileListFile s"
  "includeListFile (launch b a s) = includeListFile s"
  "processIsOpen (launch b a s)"
  by (simp_all add: launch_def process_start_def emit_def Let_def)

lemma launch_starts:
  "\<not> processIsOpen s \<Longrightarrow>
   filter isProcessStart (effects (launch b a s)) = filter isProcessStart (effects s) @ [ProcessStart b a]"
  by (simp add: launch_def process_start_def emit_def Let_def)

lemma launch_signals:
  "filter isStartedChecking (effects (launch b a s))
     = filter isStartedChecking (effects s) @ [StartedChecking (currentlyCheckingFiles s)]"
  by (simp add: launch_def process_start_def emit_def Let_def)

lemma launch_file_effects:
  "filter isFileEffect (effects (launch b a s)) = filter isFileEffect (effects s)"
  by (simp add: launch_def process_start_def emit_def Let_def)

text \<open>
  With a queue and a binary, \<open>checkQueuedFiles\<close> goes one of four ways: inline
  arguments below the ceiling; at the ceiling, the scratch files kept as they are
  when the recorded list is the queue, rewritten when it is not and both files
  open, and the run given up when one of them does not open.
\<close>

lemma checkQueuedFiles_inline:
  assumes "fileCheckQueue s \<noteq> []" and "binaryFile (settingsOf s) \<noteq> []"
    and "argumentsLength e s < maxArgumentsLength s"
  shows "checkQueuedFiles e s =
           launch (binaryFile (settingsOf s)) (baseArguments e s @ fileCheckQueue s @ includesOf s)
             (s\<lparr>currentlyCheckingFiles := fileCheckQueue s, fileCheckQueue := []\<rparr>)"
  using assms by (simp add: checkQueuedFiles_def Let_def)

lemma checkQueuedFiles_kept:
  assumes "fileCheckQueue s \<noteq> []" and "binaryFile (settingsOf s) \<noteq> []"
    and "maxArgumentsLength s \<le> argumentsLength e s"
    and "fileListFileContents s = fileCheckQueue s"
  shows "checkQueuedFiles e s =
           launch (binaryFile (settingsOf s))
             (baseArguments e s
                @ spillArguments (s\<lparr>currentlyCheckingFiles := fileCheckQueue s, fileCheckQueue := []\<rparr>))
             (s\<lparr>currentlyCheckingFiles := fileCheckQueue s, fileCheckQueue := []\<rparr>)"
  using assms by (simp add: checkQueuedFiles_def Let_def)

lemma checkQueuedFiles_rewritten:
  assumes "fileCheckQueue s \<noteq> []" and "binaryFile (settingsOf s) \<noteq> []"
    and "maxArgumentsLength s \<le> argumentsLength e s"
    and "fileListFileContents s \<noteq> fileCheckQueue s"
    and "fileListOpen e = Some n" and "includeListOpen e = Some m"
  shows "checkQueuedFiles e s =
           (let s4 = writeFiles (includesOf s)
                       (snd (openFiles e (resizeFiles
                          (s\<lparr>currentlyCheckingFiles := fileCheckQueue s, fileCheckQueue := [],
                              fileListFileContents := fileCheckQueue s\<rparr>))))
            in launch (binaryFile (settingsOf s)) (baseArguments e s @ spillArguments s4) s4)"
  using assms by (simp add: checkQueuedFiles_def openFiles_def Let_def)

lemma checkQueuedFiles_failed:
  assumes "fileCheckQueue s \<noteq> []" and "binaryFile (settingsOf s) \<noteq> []"
    and "maxArgumentsLength s \<le> argumentsLength e s"
    and "fileListFileContents s \<noteq> fileCheckQueue s"
    and "fileListOpen e = None \<or> includeListOpen e = None"
  shows "checkQueuedFiles e s =
           emit (LogWrite (''Failed to write cppcheck'' @ [CHR 0x27] @ ''s argument files''))
             (snd (openFiles e (resizeFiles
                (s\<lparr>currentlyCheckingFiles := fileCheckQueue s, fileCheckQueue := [],
                    fileListFileContents := fileCheckQueue s\<rparr>))))"
  using assms by (auto simp: checkQueuedFiles_def openFiles_def Let_def split: option.splits)

text \<open>The queue after a request: merged, without duplicates, sorted.\<close>

lemma set_removeDuplicates_seen:
  "set (removeDuplicates_seen seen xs) = set xs - set seen"
  by (induction xs arbitrary: seen) auto

lemma distinct_removeDuplicates_seen: "distinct (removeDuplicates_seen seen xs)"
  by (induction xs arbitrary: seen) (auto simp: set_removeDuplicates_seen)

lemma set_removeDuplicates: "set (removeDuplicates xs) = set xs"
  by (simp add: removeDuplicates_def set_removeDuplicates_seen)

lemma merged_queue_nonempty:
  assumes "fileNames \<noteq> []"
  shows "sort (removeDuplicates (q @ fileNames)) \<noteq> []"
proof
  assume "sort (removeDuplicates (q @ fileNames)) = []"
  then have "set (sort (removeDuplicates (q @ fileNames))) = {}" by simp
  then have "set q \<union> set fileNames = {}" by (simp add: set_removeDuplicates)
  with assms show False by simp
qed

lemma distinct_removeDuplicates: "distinct (removeDuplicates xs)"
  by (simp add: removeDuplicates_def distinct_removeDuplicates_seen)

lemma checkFiles_queue:
  assumes "fileNames \<noteq> []"
  shows "\<exists>s'. checkFiles fileNames s = Inr s'
           \<and> fileCheckQueue s' = sort (removeDuplicates (fileCheckQueue s @ fileNames))
           \<and> sorted (fileCheckQueue s') \<and> distinct (fileCheckQueue s')
           \<and> set (fileCheckQueue s') = set (fileCheckQueue s) \<union> set fileNames"
proof -
  let ?q = "sort (removeDuplicates (fileCheckQueue s @ fileNames))"
  have props: "sorted ?q" "distinct ?q" "set ?q = set (fileCheckQueue s) \<union> set fileNames"
    by (simp_all add: set_removeDuplicates distinct_removeDuplicates)
  have "\<exists>s'. checkFiles fileNames s = Inr s' \<and> fileCheckQueue s' = ?q"
    using assms by (simp add: checkFiles_def emit_def Let_def)
  then obtain s' where "checkFiles fileNames s = Inr s'" and "fileCheckQueue s' = ?q"
    by blast
  with props show ?thesis by simp
qed

text \<open>The slot \<open>finished\<close> closes the process and leaves the queue, the files
  and the settings alone.\<close>

lemma finished_fields:
  "fileCheckQueue (finished c s) = fileCheckQueue s"
  "currentlyCheckingFiles (finished c s) = currentlyCheckingFiles s"
  "fileListFileContents (finished c s) = fileListFileContents s"
  "fileListFile (finished c s) = fileListFile s"
  "includeListFile (finished c s) = includeListFile s"
  "settingsOf (finished c s) = settingsOf s"
  "includePaths (finished c s) = includePaths s"
  "runArguments (finished c s) = runArguments s"
  "maxArgumentsLength (finished c s) = maxArgumentsLength s"
  "\<not> processIsOpen (finished c s)"
  "filter isProcessStart (effects (finished c s)) = filter isProcessStart (effects s)"
  "filter isStartedChecking (effects (finished c s)) = filter isStartedChecking (effects s)"
  "filter isFileEffect (effects (finished c s)) = filter isFileEffect (effects s)"
  by (simp_all add: finished_def emit_def Let_def)

text \<open>The slot \<open>error\<close> never reaches \<open>checkQueuedFiles\<close>: whatever the error,
  the queue stays as it is and nothing is started.\<close>

lemma failed_start_keeps_queue:
  "fileCheckQueue (on_process_errorOccurred err s) = fileCheckQueue s
   \<and> filter isProcessStart (effects (on_process_errorOccurred err s))
       = filter isProcessStart (effects s)"
  by (simp add: on_process_errorOccurred_def error_def finished_def emit_def Let_def)

text \<open>A dispatch with no process open that can pass its files (inline, through
  the files as they are, or through files that open) starts exactly one process.\<close>

lemma dispatch_outcome:
  assumes "fileCheckQueue s \<noteq> []" and "binaryFile (settingsOf s) \<noteq> []"
    and "\<not> processIsOpen s"
    and "argumentsLength e s < maxArgumentsLength s
         \<or> fileListFileContents s = fileCheckQueue s
         \<or> (fileListOpen e \<noteq> None \<and> includeListOpen e \<noteq> None)"
  shows "length (filter isProcessStart (effects (checkQueuedFiles e s)))
           = length (filter isProcessStart (effects s)) + 1
       \<and> filter isStartedChecking (effects (checkQueuedFiles e s))
           = filter isStartedChecking (effects s) @ [StartedChecking (fileCheckQueue s)]
       \<and> currentlyCheckingFiles (checkQueuedFiles e s) = fileCheckQueue s
       \<and> fileCheckQueue (checkQueuedFiles e s) = []
       \<and> processIsOpen (checkQueuedFiles e s)"
proof (cases "argumentsLength e s < maxArgumentsLength s")
  case True
  with assms(1-3) show ?thesis
    by (simp add: checkQueuedFiles_inline launch_fields launch_starts launch_signals)
next
  case over: False
  show ?thesis
  proof (cases "fileListFileContents s = fileCheckQueue s")
    case True
    with over assms(1-3) show ?thesis
      by (simp add: checkQueuedFiles_kept launch_fields launch_starts launch_signals)
  next
    case False
    with over assms(4) obtain n m where "fileListOpen e = Some n" "includeListOpen e = Some m"
      by auto
    with False over assms(1-3) show ?thesis
      by (simp add: checkQueuedFiles_rewritten launch_fields launch_starts launch_signals
          writeFiles_def openFiles_def resizeFiles_def emit_def Let_def)
  qed
qed

text \<open>The state after the truncations and the attempts to open, when one file
  does not open and when both do and are written.\<close>

lemma failed_open_state:
  assumes "fileListOpen e = None \<or> includeListOpen e = None"
  shows "effects (snd (openFiles e (resizeFiles s0)))
           = effects s0 @ [FileResize FileList, FileResize IncludeList]
               @ (case fileListOpen e of None \<Rightarrow> [FileOpen FileList False]
                  | Some n \<Rightarrow> [FileOpen FileList True, FileOpen IncludeList False])
       \<and> processIsOpen (snd (openFiles e (resizeFiles s0))) = processIsOpen s0
       \<and> fileCheckQueue (snd (openFiles e (resizeFiles s0))) = fileCheckQueue s0
       \<and> currentlyCheckingFiles (snd (openFiles e (resizeFiles s0))) = currentlyCheckingFiles s0"
  using assms
  by (auto simp: openFiles_def resizeFiles_def emit_def Let_def split: option.splits)

lemma rewritten_state:
  assumes "fileListOpen e = Some n" and "includeListOpen e = Some m"
  shows "contents (fileListFile (writeFiles incs (snd (openFiles e (resizeFiles s0)))))
           = QStringList_join [CHR 0x0A] (fileListFileContents s0)"
    and "contents (includeListFile (writeFiles incs (snd (openFiles e (resizeFiles s0)))))
           = QStringList_join [CHR 0x0A] (map (\<lambda>i. QString_mid_from i 2) incs)"
    and "effects (writeFiles incs (snd (openFiles e (resizeFiles s0))))
           = effects s0 @ [FileResize FileList, FileResize IncludeList,
               FileOpen FileList True, FileOpen IncludeList True,
               FileWrite FileList (QStringList_join [CHR 0x0A] (fileListFileContents s0)),
               FileClose FileList,
               FileWrite IncludeList
                 (QStringList_join [CHR 0x0A] (map (\<lambda>i. QString_mid_from i 2) incs)),
               FileClose IncludeList]"
    and "processIsOpen (writeFiles incs (snd (openFiles e (resizeFiles s0)))) = processIsOpen s0"
    and "currentlyCheckingFiles (writeFiles incs (snd (openFiles e (resizeFiles s0))))
           = currentlyCheckingFiles s0"
    and "fileCheckQueue (writeFiles incs (snd (openFiles e (resizeFiles s0)))) = fileCheckQueue s0"
    and "fileListFileContents (writeFiles incs (snd (openFiles e (resizeFiles s0))))
           = fileListFileContents s0"
    and "fileName (fileListFile (writeFiles incs (snd (openFiles e (resizeFiles s0)))))
           = (if fileName (fileListFile s0) = [] then n else fileName (fileListFile s0))"
    and "fileName (includeListFile (writeFiles incs (snd (openFiles e (resizeFiles s0)))))
           = (if fileName (includeListFile s0) = [] then m else fileName (includeListFile s0))"
  using assms
  by (simp_all add: writeFiles_def openFiles_def resizeFiles_def named_def emit_def Let_def)

lemma spillArguments_launch: "spillArguments (launch b a s) = spillArguments s"
  by (simp add: spillArguments_def launch_fields)

subsection \<open>The states of the concrete session\<close>

lemma length_bigdir: "length bigdir = 32767"
  by (simp add: bigdir_def)

lemma strip_flag: "QString_mid_from (''-I'' @ p) 2 = p"
  by (simp add: QString_mid_from_def QString_mid_def)

lemma idle_arguments: "baseArguments env_ok idle = session_arguments"
  "baseArguments env_fail idle = session_arguments"
  by (simp_all add: baseArguments_def idle_eq cfg_def env_ok_def env_fail_def session_arguments_def
      QString_split_skipEmpty_def Let_def)

lemma queued_a_eq:
  "queued_a = idle\<lparr>fileCheckQueue := [''a.cpp''], effects := [TimerSingleShot 200]\<rparr>"
  by (simp add: queued_a_def checkFiles_def emit_def removeDuplicates_def Let_def idle_eq)

lemma queued_a_fields:
  "fileCheckQueue queued_a = [''a.cpp'']"
  "binaryFile (settingsOf queued_a) = ''/usr/bin/cppcheck''"
  "maxArgumentsLength queued_a = 32767"
  "\<not> processIsOpen queued_a"
  "includePaths queued_a = []"
  "includesOf queued_a = []"
  "baseArguments env_ok queued_a = session_arguments"
  "argumentsLength env_ok queued_a = 164"
  "effects queued_a = [TimerSingleShot 200]"
  by (simp_all add: queued_a_eq idle_eq cfg_def includesOf_def baseArguments_def argumentsLength_def
      QString_split_skipEmpty_def Let_def env_ok_def session_arguments_def)

lemma starting_a_eq:
  "starting_a = idle\<lparr>currentlyCheckingFiles := [''a.cpp''], processIsOpen := True,
       effects := [TimerSingleShot 200, StartedChecking [''a.cpp''],
                   ProcessStart ''/usr/bin/cppcheck'' (session_arguments @ [''a.cpp''])]\<rparr>"
proof -
  have "checkQueuedFiles env_ok queued_a =
          launch (binaryFile (settingsOf queued_a))
            (baseArguments env_ok queued_a @ fileCheckQueue queued_a @ includesOf queued_a)
            (queued_a\<lparr>currentlyCheckingFiles := fileCheckQueue queued_a, fileCheckQueue := []\<rparr>)"
    by (rule checkQueuedFiles_inline) (simp_all add: queued_a_fields)
  then show ?thesis
    unfolding starting_a_def on_timer_def queued_a_fields
    by (simp add: launch_def process_start_def emit_def Let_def queued_a_eq idle_eq)
qed

lemma starting_a_queued_b_eq: "starting_a_queued_b = starting_a\<lparr>fileCheckQueue := [''b.cpp'']\<rparr>"
  by (simp add: starting_a_queued_b_def checkFiles_def removeDuplicates_def Let_def starting_a_eq idle_eq)

lemma running_a_eq:
  "running_a = starting_a\<lparr>futureInterface := True, effects := effects starting_a @ [ProgressCreated]\<rparr>"
  by (simp add: running_a_def started_def emit_def Let_def starting_a_eq idle_eq)

lemma running_a_queued_b_eq: "running_a_queued_b = running_a\<lparr>fileCheckQueue := [''b.cpp'']\<rparr>"
  by (simp add: running_a_queued_b_def checkFiles_def removeDuplicates_def Let_def running_a_eq starting_a_eq idle_eq)

lemma queued_big_eq:
  "queued_big = idle\<lparr>includePaths := [''-I'' @ bigdir], fileCheckQueue := [''a.cpp''],
       effects := [TimerSingleShot 200]\<rparr>"
  by (simp add: queued_big_def idle_big_def setIncludePaths_def checkFiles_def emit_def
      removeDuplicates_def Let_def idle_eq)

lemma queued_big_length:
  "argumentsLength env_ok queued_big = 32933" "argumentsLength env_fail queued_big = 32933"
  by (simp_all add: argumentsLength_def baseArguments_def includesOf_def queued_big_eq idle_eq cfg_def
      env_ok_def env_fail_def QString_split_skipEmpty_def Let_def length_bigdir)

lemma env_opens:
  "fileListOpen env_ok = Some ''/tmp/qtc.a''" "includeListOpen env_ok = Some ''/tmp/qtc.b''"
  "fileListOpen env_fail = Some ''/tmp/qtc.a''" "includeListOpen env_fail = None"
  by (simp_all add: env_ok_def env_fail_def)

lemma queued_big_fields:
  "fileCheckQueue queued_big = [''a.cpp'']"
  "binaryFile (settingsOf queued_big) = ''/usr/bin/cppcheck''"
  "fileListFileContents queued_big = []"
  "maxArgumentsLength queued_big = 32767"
  "\<not> processIsOpen queued_big"
  "includesOf queued_big = [''-I'' @ bigdir]"
  "baseArguments env_ok queued_big = session_arguments"
  "baseArguments env_fail queued_big = session_arguments"
  by (simp_all add: queued_big_eq idle_eq cfg_def includesOf_def baseArguments_def
      QString_split_skipEmpty_def Let_def env_ok_def env_fail_def session_arguments_def)

lemma spilled_a_eq:
  "spilled_a = idle\<lparr>includePaths := [''-I'' @ bigdir], currentlyCheckingFiles := [''a.cpp''],
       fileListFileContents := [''a.cpp''],
       fileListFile := \<lparr>fileName = ''/tmp/qtc.a'', contents = ''a.cpp''\<rparr>,
       includeListFile := \<lparr>fileName = ''/tmp/qtc.b'', contents = bigdir\<rparr>,
       processIsOpen := True,
       effects := [TimerSingleShot 200, FileResize FileList, FileResize IncludeList,
         FileOpen FileList True, FileOpen IncludeList True,
         FileWrite FileList ''a.cpp'', FileClose FileList,
         FileWrite IncludeList bigdir, FileClose IncludeList,
         StartedChecking [''a.cpp''],
         ProcessStart ''/usr/bin/cppcheck''
           (session_arguments @ [''--file-list=/tmp/qtc.a'', ''--includes-file=/tmp/qtc.b''])]\<rparr>"
proof -
  have "checkQueuedFiles env_ok queued_big =
           (let s4 = writeFiles (includesOf queued_big)
                       (snd (openFiles env_ok (resizeFiles
                          (queued_big\<lparr>currentlyCheckingFiles := fileCheckQueue queued_big,
                              fileCheckQueue := [],
                              fileListFileContents := fileCheckQueue queued_big\<rparr>))))
            in launch (binaryFile (settingsOf queued_big))
                 (baseArguments env_ok queued_big @ spillArguments s4) s4)"
    by (rule checkQueuedFiles_rewritten [where n = "''/tmp/qtc.a''" and m = "''/tmp/qtc.b''"])
       (simp_all add: queued_big_fields queued_big_length env_opens)
  then show ?thesis
    unfolding spilled_a_def on_timer_def queued_big_fields
    by (simp add: launch_def process_start_def emit_def resizeFiles_def openFiles_def
        writeFiles_def named_def spillArguments_def Let_def strip_flag [simplified]
        queued_big_eq idle_eq env_ok_def)
qed

lemma spilled_a_done_eq:
  "spilled_a_done = spilled_a\<lparr>processIsOpen := False, futureInterface := True,
       effects := effects spilled_a @ [ProgressCreated, ReportFinished, ProcessClose]\<rparr>"
  by (simp add: spilled_a_done_def on_process_finished_def checkQueuedFiles_def started_def
      finished_def emit_def Let_def spilled_a_eq idle_eq)

lemma queued_a_again_eq:
  "queued_a_again = spilled_a_done\<lparr>includePaths := [''-I'' @ bigdir, ''-I/opt/include''],
       fileCheckQueue := [''a.cpp''],
       effects := effects spilled_a_done @ [TimerSingleShot 200]\<rparr>"
  by (simp add: queued_a_again_def setIncludePaths_def checkFiles_def emit_def
      removeDuplicates_def Let_def spilled_a_done_eq spilled_a_eq idle_eq)

lemma queued_b_after_eq:
  "queued_b_after = spilled_a_done\<lparr>fileCheckQueue := [''b.cpp''],
       effects := effects spilled_a_done @ [TimerSingleShot 200]\<rparr>"
  by (simp add: queued_b_after_def checkFiles_def emit_def
      removeDuplicates_def Let_def spilled_a_done_eq spilled_a_eq idle_eq)



lemma queued_a_again_fields:
  "fileCheckQueue queued_a_again = [''a.cpp'']"
  "binaryFile (settingsOf queued_a_again) = ''/usr/bin/cppcheck''"
  "fileListFileContents queued_a_again = [''a.cpp'']"
  "maxArgumentsLength queued_a_again = 32767"
  "\<not> processIsOpen queued_a_again"
  "\<not> ignoreIncludePaths (settingsOf queued_a_again)"
  "includePaths queued_a_again = map (\<lambda>i. ''-I'' @ i) [bigdir, ''/opt/include'']"
  "includesOf queued_a_again = [''-I'' @ bigdir, ''-I/opt/include'']"
  "baseArguments env_ok queued_a_again = session_arguments"
  "argumentsLength env_ok queued_a_again = 32948"
  "contents (includeListFile queued_a_again) = bigdir"
  "contents (fileListFile queued_a_again) = ''a.cpp''"
  "spillArguments queued_a_again = [''--file-list=/tmp/qtc.a'', ''--includes-file=/tmp/qtc.b'']"
  "filter isProcessStart (effects queued_a_again)
     = [ProcessStart ''/usr/bin/cppcheck''
          (session_arguments @ [''--file-list=/tmp/qtc.a'', ''--includes-file=/tmp/qtc.b''])]"
  "filter isFileEffect (effects queued_a_again)
     = [FileResize FileList, FileResize IncludeList, FileOpen FileList True,
        FileOpen IncludeList True, FileWrite FileList ''a.cpp'', FileClose FileList,
        FileWrite IncludeList bigdir, FileClose IncludeList]"
  by (simp_all add: queued_a_again_eq spilled_a_done_eq spilled_a_eq idle_eq cfg_def includesOf_def
      baseArguments_def argumentsLength_def spillArguments_def QString_split_skipEmpty_def Let_def
      env_ok_def length_bigdir session_arguments_def)

lemma queued_b_after_fields:
  "fileCheckQueue queued_b_after = [''b.cpp'']"
  "binaryFile (settingsOf queued_b_after) = ''/usr/bin/cppcheck''"
  "fileListFileContents queued_b_after = [''a.cpp'']"
  "maxArgumentsLength queued_b_after = 32767"
  "\<not> processIsOpen queued_b_after"
  "includesOf queued_b_after = [''-I'' @ bigdir]"
  "baseArguments env_ok queued_b_after = session_arguments"
  "argumentsLength env_ok queued_b_after = 32933"
  "contents (includeListFile queued_b_after) = bigdir"
  "fileName (fileListFile queued_b_after) = ''/tmp/qtc.a''"
  "fileName (includeListFile queued_b_after) = ''/tmp/qtc.b''"
  "showOutput queued_b_after = False"
  by (simp_all add: queued_b_after_eq spilled_a_done_eq spilled_a_eq idle_eq cfg_def includesOf_def
      baseArguments_def argumentsLength_def spillArguments_def QString_split_skipEmpty_def Let_def
      env_ok_def length_bigdir session_arguments_def)

subsection \<open>Stop\<close>

text \<open>
  C8. \<open>stopChecking\<close> while a process is open clears the pending queue and kills
  the process; at that process's finish signal \<open>checkQueuedFiles\<close> finds the queue
  empty and returns: nothing is started and no \<open>startedChecking\<close> is emitted, the
  process is closed.
\<close>

theorem stopChecking_then_finish:
  assumes "processIsOpen s"
  shows "fileCheckQueue (stopChecking s) = []
       \<and> effects (stopChecking s) = effects s @ [ProcessKill]
       \<and> on_process_finished exitCode e (stopChecking s) = finished exitCode (stopChecking s)
       \<and> filter isProcessStart (effects (on_process_finished exitCode e (stopChecking s)))
           = filter isProcessStart (effects s)
       \<and> filter isStartedChecking (effects (on_process_finished exitCode e (stopChecking s)))
           = filter isStartedChecking (effects s)
       \<and> fileCheckQueue (on_process_finished exitCode e (stopChecking s)) = []
       \<and> \<not> processIsOpen (on_process_finished exitCode e (stopChecking s))"
  using assms
  by (simp add: stopChecking_def on_process_finished_def checkQueuedFiles_def finished_def emit_def Let_def)

theorem stopChecking_then_finish_witness:
  "processIsOpen running_a_queued_b
   \<and> fileCheckQueue running_a_queued_b = [''b.cpp'']
   \<and> fileCheckQueue (stopChecking running_a_queued_b) = []
   \<and> effects (stopChecking running_a_queued_b) = effects running_a_queued_b @ [ProcessKill]
   \<and> filter isProcessStart (effects (on_process_finished 9 env_ok (stopChecking running_a_queued_b)))
       = [ProcessStart ''/usr/bin/cppcheck'' (session_arguments @ [''a.cpp''])]
   \<and> fileCheckQueue (on_process_finished 9 env_ok (stopChecking running_a_queued_b)) = []
   \<and> \<not> processIsOpen (on_process_finished 9 env_ok (stopChecking running_a_queued_b))"
proof -
  have f: "processIsOpen running_a_queued_b" "fileCheckQueue running_a_queued_b = [''b.cpp'']"
    "filter isProcessStart (effects running_a_queued_b)
       = [ProcessStart ''/usr/bin/cppcheck'' (session_arguments @ [''a.cpp''])]"
    by (simp_all add: running_a_queued_b_eq running_a_eq starting_a_eq idle_eq)
  note t = stopChecking_then_finish [OF f(1), of 9 env_ok]
  from t have a: "fileCheckQueue (stopChecking running_a_queued_b) = []"
    and b: "effects (stopChecking running_a_queued_b) = effects running_a_queued_b @ [ProcessKill]"
    and c: "filter isProcessStart
              (effects (on_process_finished 9 env_ok (stopChecking running_a_queued_b)))
            = filter isProcessStart (effects running_a_queued_b)"
    and d: "fileCheckQueue (on_process_finished 9 env_ok (stopChecking running_a_queued_b)) = []"
    and e: "\<not> processIsOpen (on_process_finished 9 env_ok (stopChecking running_a_queued_b))"
    by blast+
  show ?thesis
    by (simp add: f a b c d e)
qed

subsection \<open>A process that fails to start\<close>

text \<open>
  C2, evaluated where \<open>a.cpp\<close> has been dispatched, \<open>b.cpp\<close> has been queued while
  the process was open, and the process then reports \<open>FailedToStart\<close>. The slot
  \<open>error\<close> calls the slot \<open>finished (-1)\<close> and nothing more: the process is closed,
  \<open>b.cpp\<close> stays in the queue and nothing is started. The signal of an ordinary
  finish, at the same state, dispatches \<open>b.cpp\<close>.
\<close>

theorem failed_start_skips_queue_drain:
  "processIsOpen starting_a_queued_b
   \<and> fileCheckQueue starting_a_queued_b = [''b.cpp'']
   \<and> on_process_errorOccurred FailedToStart starting_a_queued_b
       = finished (- 1) starting_a_queued_b
   \<and> fileCheckQueue (on_process_errorOccurred FailedToStart starting_a_queued_b) = [''b.cpp'']
   \<and> \<not> processIsOpen (on_process_errorOccurred FailedToStart starting_a_queued_b)
   \<and> filter isProcessStart (effects (on_process_errorOccurred FailedToStart starting_a_queued_b))
       = filter isProcessStart (effects starting_a_queued_b)
   \<and> fileCheckQueue (on_process_finished (- 1) env_ok starting_a_queued_b) = []
   \<and> currentlyCheckingFiles (on_process_finished (- 1) env_ok starting_a_queued_b) = [''b.cpp'']
   \<and> processIsOpen (on_process_finished (- 1) env_ok starting_a_queued_b)"
proof -
  have f: "processIsOpen starting_a_queued_b" "fileCheckQueue starting_a_queued_b = [''b.cpp'']"
    "\<not> showOutput starting_a_queued_b" "binaryFile (settingsOf starting_a_queued_b) \<noteq> []"
    by (simp_all add: starting_a_queued_b_eq starting_a_eq idle_eq cfg_def)
  have err: "on_process_errorOccurred FailedToStart starting_a_queued_b
               = finished (- 1) starting_a_queued_b"
    using f(3) by (simp add: on_process_errorOccurred_def error_def Let_def)
  let ?f = "finished (- 1) starting_a_queued_b"
  have pre: "fileCheckQueue ?f \<noteq> []" "binaryFile (settingsOf ?f) \<noteq> []" "\<not> processIsOpen ?f"
    using f by (simp_all add: finished_fields)
  have "fileListOpen env_ok \<noteq> None \<and> includeListOpen env_ok \<noteq> None"
    by (simp add: env_opens)
  then have "argumentsLength env_ok ?f < maxArgumentsLength ?f
         \<or> fileListFileContents ?f = fileCheckQueue ?f
         \<or> (fileListOpen env_ok \<noteq> None \<and> includeListOpen env_ok \<noteq> None)"
    by blast
  note d = dispatch_outcome [OF pre this]
  from f err d show ?thesis
    by (simp add: finished_fields on_process_finished_def)
qed

subsection \<open>The same set requested again\<close>

text \<open>The state at which the finish signal's \<open>checkQueuedFiles\<close> runs after the
  kill: the process closed, the queue holding the set again, the rest as before.\<close>

lemma killed_finished_frame:
  "fileCheckQueue (finished c (emit ProcessKill (s\<lparr>fileCheckQueue := q\<rparr>))) = q"
  "settingsOf (finished c (emit ProcessKill (s\<lparr>fileCheckQueue := q\<rparr>))) = settingsOf s"
  "maxArgumentsLength (finished c (emit ProcessKill (s\<lparr>fileCheckQueue := q\<rparr>)))
     = maxArgumentsLength s"
  "fileListFileContents (finished c (emit ProcessKill (s\<lparr>fileCheckQueue := q\<rparr>)))
     = fileListFileContents s"
  "fileListFile (finished c (emit ProcessKill (s\<lparr>fileCheckQueue := q\<rparr>))) = fileListFile s"
  "includeListFile (finished c (emit ProcessKill (s\<lparr>fileCheckQueue := q\<rparr>)))
     = includeListFile s"
  "\<not> processIsOpen (finished c (emit ProcessKill (s\<lparr>fileCheckQueue := q\<rparr>)))"
  "baseArguments e (finished c (emit ProcessKill (s\<lparr>fileCheckQueue := q\<rparr>)))
     = baseArguments e s"
  "includesOf (finished c (emit ProcessKill (s\<lparr>fileCheckQueue := q\<rparr>))) = includesOf s"
  "argumentsLength e (finished c (emit ProcessKill (s\<lparr>fileCheckQueue := q\<rparr>)))
     = argumentsLength e (s\<lparr>fileCheckQueue := q\<rparr>)"
  "spillArguments (finished c (emit ProcessKill (s\<lparr>fileCheckQueue := q\<rparr>)))
     = spillArguments s"
  "filter isProcessStart (effects (finished c (emit ProcessKill (s\<lparr>fileCheckQueue := q\<rparr>))))
     = filter isProcessStart (effects s)"
  "filter isStartedChecking (effects (finished c (emit ProcessKill (s\<lparr>fileCheckQueue := q\<rparr>))))
     = filter isStartedChecking (effects s)"
  "filter isFileEffect (effects (finished c (emit ProcessKill (s\<lparr>fileCheckQueue := q\<rparr>))))
     = filter isFileEffect (effects s)"
  by (simp_all add: finished_def emit_def Let_def baseArguments_def includesOf_def
      argumentsLength_def spillArguments_def)

text \<open>What a dispatch with no process open leaves, way by way.\<close>

lemma dispatched_inline:
  assumes "fileCheckQueue t \<noteq> []" and "binaryFile (settingsOf t) \<noteq> []"
    and "\<not> processIsOpen t" and "argumentsLength e t < maxArgumentsLength t"
  shows "filter isProcessStart (effects (checkQueuedFiles e t))
           = filter isProcessStart (effects t)
               @ [ProcessStart (binaryFile (settingsOf t))
                    (baseArguments e t @ fileCheckQueue t @ includesOf t)]"
    and "filter isStartedChecking (effects (checkQueuedFiles e t))
           = filter isStartedChecking (effects t) @ [StartedChecking (fileCheckQueue t)]"
    and "filter isFileEffect (effects (checkQueuedFiles e t)) = filter isFileEffect (effects t)"
    and "currentlyCheckingFiles (checkQueuedFiles e t) = fileCheckQueue t"
    and "fileCheckQueue (checkQueuedFiles e t) = []"
    and "processIsOpen (checkQueuedFiles e t)"
  using assms
  by (simp_all add: checkQueuedFiles_inline launch_fields launch_starts launch_signals
      launch_file_effects)

lemma dispatched_kept:
  assumes "fileCheckQueue t \<noteq> []" and "binaryFile (settingsOf t) \<noteq> []"
    and "\<not> processIsOpen t" and "maxArgumentsLength t \<le> argumentsLength e t"
    and "fileListFileContents t = fileCheckQueue t"
  shows "filter isProcessStart (effects (checkQueuedFiles e t))
           = filter isProcessStart (effects t)
               @ [ProcessStart (binaryFile (settingsOf t)) (baseArguments e t @ spillArguments t)]"
    and "filter isStartedChecking (effects (checkQueuedFiles e t))
           = filter isStartedChecking (effects t) @ [StartedChecking (fileCheckQueue t)]"
    and "fileListFile (checkQueuedFiles e t) = fileListFile t"
    and "includeListFile (checkQueuedFiles e t) = includeListFile t"
    and "currentlyCheckingFiles (checkQueuedFiles e t) = fileCheckQueue t"
    and "fileCheckQueue (checkQueuedFiles e t) = []"
    and "processIsOpen (checkQueuedFiles e t)"
  using assms
  by (simp_all add: checkQueuedFiles_kept launch_fields launch_starts launch_signals
      spillArguments_def)

lemma dispatched_rewritten:
  assumes "fileCheckQueue t \<noteq> []" and "binaryFile (settingsOf t) \<noteq> []"
    and "\<not> processIsOpen t" and "maxArgumentsLength t \<le> argumentsLength e t"
    and "fileListFileContents t \<noteq> fileCheckQueue t"
    and "fileListOpen e = Some n" and "includeListOpen e = Some m"
  shows "filter isProcessStart (effects (checkQueuedFiles e t))
           = filter isProcessStart (effects t)
               @ [ProcessStart (binaryFile (settingsOf t))
                    (baseArguments e t @ spillArguments (checkQueuedFiles e t))]"
    and "filter isStartedChecking (effects (checkQueuedFiles e t))
           = filter isStartedChecking (effects t) @ [StartedChecking (fileCheckQueue t)]"
    and "contents (fileListFile (checkQueuedFiles e t))
           = QStringList_join [CHR 0x0A] (fileCheckQueue t)"
    and "contents (includeListFile (checkQueuedFiles e t))
           = QStringList_join [CHR 0x0A] (map (\<lambda>i. QString_mid_from i 2) (includesOf t))"
    and "currentlyCheckingFiles (checkQueuedFiles e t) = fileCheckQueue t"
    and "fileCheckQueue (checkQueuedFiles e t) = []"
    and "processIsOpen (checkQueuedFiles e t)"
proof -
  let ?s0 = "t\<lparr>currentlyCheckingFiles := fileCheckQueue t, fileCheckQueue := [],
                 fileListFileContents := fileCheckQueue t\<rparr>"
  let ?s4 = "writeFiles (includesOf t) (snd (openFiles e (resizeFiles ?s0)))"
  have run: "checkQueuedFiles e t =
      launch (binaryFile (settingsOf t)) (baseArguments e t @ spillArguments ?s4) ?s4"
    using checkQueuedFiles_rewritten [OF assms(1,2,4,5,6,7)] by (simp add: Let_def)
  note st = rewritten_state [OF assms(6,7), of "includesOf t" ?s0]
  have closed: "\<not> processIsOpen ?s4" using assms(3) by (simp add: st(4))
  have eff: "filter isProcessStart (effects ?s4) = filter isProcessStart (effects t)"
    "filter isStartedChecking (effects ?s4) = filter isStartedChecking (effects t)"
    by (simp_all add: st(3))
  show "filter isProcessStart (effects (checkQueuedFiles e t))
           = filter isProcessStart (effects t)
               @ [ProcessStart (binaryFile (settingsOf t))
                    (baseArguments e t @ spillArguments (checkQueuedFiles e t))]"
    unfolding run spillArguments_launch launch_starts [OF closed] eff ..
  show "filter isStartedChecking (effects (checkQueuedFiles e t))
           = filter isStartedChecking (effects t) @ [StartedChecking (fileCheckQueue t)]"
    unfolding run launch_signals eff st(5) by simp
  show "contents (fileListFile (checkQueuedFiles e t))
           = QStringList_join [CHR 0x0A] (fileCheckQueue t)"
    by (simp add: run launch_fields st(1))
  show "contents (includeListFile (checkQueuedFiles e t))
           = QStringList_join [CHR 0x0A] (map (\<lambda>i. QString_mid_from i 2) (includesOf t))"
    by (simp only: run launch_fields st(2))
  show "currentlyCheckingFiles (checkQueuedFiles e t) = fileCheckQueue t"
    by (simp add: run launch_fields st(5))
  show "fileCheckQueue (checkQueuedFiles e t) = []"
    by (simp add: run launch_fields st(6))
  show "processIsOpen (checkQueuedFiles e t)"
    by (simp add: run launch_fields)
qed

lemma dispatched_failed:
  assumes "fileCheckQueue t \<noteq> []" and "binaryFile (settingsOf t) \<noteq> []"
    and "\<not> processIsOpen t" and "maxArgumentsLength t \<le> argumentsLength e t"
    and "fileListFileContents t \<noteq> fileCheckQueue t"
    and "fileListOpen e = None \<or> includeListOpen e = None"
  shows "filter isProcessStart (effects (checkQueuedFiles e t)) = filter isProcessStart (effects t)"
    and "filter isStartedChecking (effects (checkQueuedFiles e t))
           = filter isStartedChecking (effects t)"
    and "currentlyCheckingFiles (checkQueuedFiles e t) = fileCheckQueue t"
    and "fileCheckQueue (checkQueuedFiles e t) = []"
    and "\<not> processIsOpen (checkQueuedFiles e t)"
proof -
  let ?s0 = "t\<lparr>currentlyCheckingFiles := fileCheckQueue t, fileCheckQueue := [],
                 fileListFileContents := fileCheckQueue t\<rparr>"
  have run: "checkQueuedFiles e t =
        emit (LogWrite (''Failed to write cppcheck'' @ [CHR 0x27] @ ''s argument files''))
          (snd (openFiles e (resizeFiles ?s0)))"
    using assms(1,2,4,5,6) by (rule checkQueuedFiles_failed)
  note st = failed_open_state [OF assms(6), of ?s0]
  show "filter isProcessStart (effects (checkQueuedFiles e t)) = filter isProcessStart (effects t)"
    and "filter isStartedChecking (effects (checkQueuedFiles e t))
           = filter isStartedChecking (effects t)"
    using st by (simp_all add: run emit_def split: option.splits)
  show "currentlyCheckingFiles (checkQueuedFiles e t) = fileCheckQueue t"
    and "fileCheckQueue (checkQueuedFiles e t) = []"
    and "\<not> processIsOpen (checkQueuedFiles e t)"
    using st assms(3) by (simp_all add: run emit_def)
qed

lemma running_a_fields:
  "processIsOpen running_a"
  "fileCheckQueue running_a = []"
  "currentlyCheckingFiles running_a = [''a.cpp'']"
  "binaryFile (settingsOf running_a) = ''/usr/bin/cppcheck''"
  "maxArgumentsLength running_a = 32767"
  "includesOf running_a = []"
  "baseArguments env_ok running_a = session_arguments"
  "argumentsLength env_ok (running_a\<lparr>fileCheckQueue := [''a.cpp'']\<rparr>) = 164"
  "filter isProcessStart (effects running_a)
     = [ProcessStart ''/usr/bin/cppcheck'' (session_arguments @ [''a.cpp''])]"
  "filter isStartedChecking (effects running_a) = [StartedChecking [''a.cpp'']]"
  "filter isFileEffect (effects running_a) = []"
  by (simp_all add: running_a_eq starting_a_eq idle_eq cfg_def includesOf_def baseArguments_def
      argumentsLength_def QString_split_skipEmpty_def Let_def env_ok_def session_arguments_def)

lemma running_a_big_eq: "running_a_big = running_a\<lparr>includePaths := [''-I'' @ bigdir]\<rparr>"
  by (simp add: running_a_big_def setIncludePaths_def)

lemma running_a_big_fields:
  "processIsOpen running_a_big"
  "fileCheckQueue running_a_big = []"
  "currentlyCheckingFiles running_a_big = [''a.cpp'']"
  "binaryFile (settingsOf running_a_big) = ''/usr/bin/cppcheck''"
  "maxArgumentsLength running_a_big = 32767"
  "fileListFileContents running_a_big = []"
  "includesOf running_a_big = [''-I'' @ bigdir]"
  "baseArguments env_ok running_a_big = session_arguments"
  "argumentsLength env_ok (running_a_big\<lparr>fileCheckQueue := [''a.cpp'']\<rparr>) = 32933"
  "argumentsLength env_fail (running_a_big\<lparr>fileCheckQueue := [''a.cpp'']\<rparr>) = 32933"
  "filter isProcessStart (effects running_a_big)
     = [ProcessStart ''/usr/bin/cppcheck'' (session_arguments @ [''a.cpp''])]"
  "filter isStartedChecking (effects running_a_big) = [StartedChecking [''a.cpp'']]"
  "fileName (fileListFile running_a_big) = []"
  "fileName (includeListFile running_a_big) = []"
  by (simp_all add: running_a_big_eq running_a_eq starting_a_eq idle_eq cfg_def includesOf_def
      baseArguments_def argumentsLength_def QString_split_skipEmpty_def Let_def env_ok_def
      env_fail_def session_arguments_def length_bigdir)

lemma same_request:
  "sort (removeDuplicates (fileCheckQueue running_a @ [''a.cpp''])) = currentlyCheckingFiles running_a"
  "sort (removeDuplicates (fileCheckQueue running_a_big @ [''a.cpp'']))
     = currentlyCheckingFiles running_a_big"
  by (simp_all add: running_a_fields running_a_big_fields removeDuplicates_def)

text \<open>
  C3, as amended. Let a process be open for the file set \<open>S\<close>
  (\<open>currentlyCheckingFiles\<close>), and let \<open>checkFiles\<close> be called with a non-empty list
  such that the merged, de-duplicated and sorted queue equals \<open>S\<close>. Then \<open>S\<close> is not
  empty, the process is killed and \<open>S\<close> stays queued. At the finish signal that
  follows, with the length \<open>L\<close> of the arguments for \<open>S\<close>:
  \<^item> binary set, \<open>L\<close> below the ceiling: exactly one process is started, with the
    arguments, then \<open>S\<close>, then the include flags; one \<open>startedChecking (S)\<close>; no
    scratch file is touched;
  \<^item> binary set, \<open>L\<close> at the ceiling, the recorded list not \<open>S\<close>, both scratch files
    opening: exactly one process is started, with the arguments and the two
    scratch-file flags; one \<open>startedChecking (S)\<close>; the file-list file holds \<open>S\<close>,
    one path per line, and the include-list file the include directories;
  \<^item> binary set, \<open>L\<close> at the ceiling, the recorded list \<open>S\<close>: exactly one process is
    started, with the arguments and the two scratch-file flags; one
    \<open>startedChecking (S)\<close>; the scratch files are as they were;
  \<^item> binary set, \<open>L\<close> at the ceiling, the recorded list not \<open>S\<close>, a scratch file not
    opening: nothing is started and the queue is empty;
  \<^item> binary not set: nothing is started and \<open>S\<close> stays queued.
  In the three cases with a start, \<open>S\<close> is the set being checked, the process is
  open and the queue is empty.
\<close>

theorem same_set_kill_and_restart:
  assumes "processIsOpen s" and "fileNames \<noteq> []"
    and "sort (removeDuplicates (fileCheckQueue s @ fileNames)) = currentlyCheckingFiles s"
  shows "currentlyCheckingFiles s \<noteq> []
       \<and> checkFiles fileNames s
           = Inr (emit ProcessKill (s\<lparr>fileCheckQueue := currentlyCheckingFiles s\<rparr>))
       \<and> (binaryFile (settingsOf s) \<noteq> []
            \<and> argumentsLength e (s\<lparr>fileCheckQueue := currentlyCheckingFiles s\<rparr>)
                < maxArgumentsLength s \<longrightarrow>
            filter isProcessStart
              (effects (on_process_finished exitCode e (projr (checkFiles fileNames s))))
              = filter isProcessStart (effects s)
                  @ [ProcessStart (binaryFile (settingsOf s))
                       (baseArguments e s @ currentlyCheckingFiles s @ includesOf s)]
          \<and> filter isStartedChecking
              (effects (on_process_finished exitCode e (projr (checkFiles fileNames s))))
              = filter isStartedChecking (effects s) @ [StartedChecking (currentlyCheckingFiles s)]
          \<and> filter isFileEffect
              (effects (on_process_finished exitCode e (projr (checkFiles fileNames s))))
              = filter isFileEffect (effects s)
          \<and> currentlyCheckingFiles (on_process_finished exitCode e (projr (checkFiles fileNames s)))
              = currentlyCheckingFiles s
          \<and> fileCheckQueue (on_process_finished exitCode e (projr (checkFiles fileNames s))) = []
          \<and> processIsOpen (on_process_finished exitCode e (projr (checkFiles fileNames s))))
       \<and> (binaryFile (settingsOf s) \<noteq> []
            \<and> maxArgumentsLength s
                \<le> argumentsLength e (s\<lparr>fileCheckQueue := currentlyCheckingFiles s\<rparr>)
            \<and> fileListFileContents s \<noteq> currentlyCheckingFiles s
            \<and> fileListOpen e = Some n \<and> includeListOpen e = Some m \<longrightarrow>
            filter isProcessStart
              (effects (on_process_finished exitCode e (projr (checkFiles fileNames s))))
              = filter isProcessStart (effects s)
                  @ [ProcessStart (binaryFile (settingsOf s))
                       (baseArguments e s
                          @ spillArguments
                              (on_process_finished exitCode e (projr (checkFiles fileNames s))))]
          \<and> filter isStartedChecking
              (effects (on_process_finished exitCode e (projr (checkFiles fileNames s))))
              = filter isStartedChecking (effects s) @ [StartedChecking (currentlyCheckingFiles s)]
          \<and> contents (fileListFile (on_process_finished exitCode e (projr (checkFiles fileNames s))))
              = QStringList_join [CHR 0x0A] (currentlyCheckingFiles s)
          \<and> contents (includeListFile
               (on_process_finished exitCode e (projr (checkFiles fileNames s))))
              = QStringList_join [CHR 0x0A] (map (\<lambda>i. QString_mid_from i 2) (includesOf s))
          \<and> currentlyCheckingFiles (on_process_finished exitCode e (projr (checkFiles fileNames s)))
              = currentlyCheckingFiles s
          \<and> fileCheckQueue (on_process_finished exitCode e (projr (checkFiles fileNames s))) = []
          \<and> processIsOpen (on_process_finished exitCode e (projr (checkFiles fileNames s))))
       \<and> (binaryFile (settingsOf s) \<noteq> []
            \<and> maxArgumentsLength s
                \<le> argumentsLength e (s\<lparr>fileCheckQueue := currentlyCheckingFiles s\<rparr>)
            \<and> fileListFileContents s = currentlyCheckingFiles s \<longrightarrow>
            filter isProcessStart
              (effects (on_process_finished exitCode e (projr (checkFiles fileNames s))))
              = filter isProcessStart (effects s)
                  @ [ProcessStart (binaryFile (settingsOf s)) (baseArguments e s @ spillArguments s)]
          \<and> filter isStartedChecking
              (effects (on_process_finished exitCode e (projr (checkFiles fileNames s))))
              = filter isStartedChecking (effects s) @ [StartedChecking (currentlyCheckingFiles s)]
          \<and> fileListFile (on_process_finished exitCode e (projr (checkFiles fileNames s)))
              = fileListFile s
          \<and> includeListFile (on_process_finished exitCode e (projr (checkFiles fileNames s)))
              = includeListFile s
          \<and> currentlyCheckingFiles (on_process_finished exitCode e (projr (checkFiles fileNames s)))
              = currentlyCheckingFiles s
          \<and> fileCheckQueue (on_process_finished exitCode e (projr (checkFiles fileNames s))) = []
          \<and> processIsOpen (on_process_finished exitCode e (projr (checkFiles fileNames s))))
       \<and> (binaryFile (settingsOf s) \<noteq> []
            \<and> maxArgumentsLength s
                \<le> argumentsLength e (s\<lparr>fileCheckQueue := currentlyCheckingFiles s\<rparr>)
            \<and> fileListFileContents s \<noteq> currentlyCheckingFiles s
            \<and> (fileListOpen e = None \<or> includeListOpen e = None) \<longrightarrow>
            filter isProcessStart
              (effects (on_process_finished exitCode e (projr (checkFiles fileNames s))))
              = filter isProcessStart (effects s)
          \<and> filter isStartedChecking
              (effects (on_process_finished exitCode e (projr (checkFiles fileNames s))))
              = filter isStartedChecking (effects s)
          \<and> fileCheckQueue (on_process_finished exitCode e (projr (checkFiles fileNames s))) = []
          \<and> \<not> processIsOpen (on_process_finished exitCode e (projr (checkFiles fileNames s))))
       \<and> (binaryFile (settingsOf s) = [] \<longrightarrow>
            on_process_finished exitCode e (projr (checkFiles fileNames s))
              = finished exitCode (emit ProcessKill (s\<lparr>fileCheckQueue := currentlyCheckingFiles s\<rparr>))
          \<and> filter isProcessStart
              (effects (on_process_finished exitCode e (projr (checkFiles fileNames s))))
              = filter isProcessStart (effects s)
          \<and> fileCheckQueue (on_process_finished exitCode e (projr (checkFiles fileNames s)))
              = currentlyCheckingFiles s
          \<and> \<not> processIsOpen (on_process_finished exitCode e (projr (checkFiles fileNames s))))"
proof -
  let ?S = "currentlyCheckingFiles s"
  let ?f = "finished exitCode (emit ProcessKill (s\<lparr>fileCheckQueue := ?S\<rparr>))"
  have ne: "?S \<noteq> []" using assms(2,3) merged_queue_nonempty by metis
  have cf: "checkFiles fileNames s = Inr (emit ProcessKill (s\<lparr>fileCheckQueue := ?S\<rparr>))"
    using assms by (simp add: checkFiles_def Let_def)
  have r: "on_process_finished exitCode e (projr (checkFiles fileNames s)) = checkQueuedFiles e ?f"
    by (simp add: cf on_process_finished_def)
  have q: "fileCheckQueue ?f \<noteq> []" and o: "\<not> processIsOpen ?f"
    using ne by (simp_all add: killed_finished_frame)
  have cur: "currentlyCheckingFiles ?f = ?S"
    by (simp add: finished_fields emit_def)
  have inline: "binaryFile (settingsOf s) \<noteq> []
      \<and> argumentsLength e (s\<lparr>fileCheckQueue := ?S\<rparr>) < maxArgumentsLength s \<longrightarrow>
        filter isProcessStart (effects (checkQueuedFiles e ?f))
          = filter isProcessStart (effects s)
              @ [ProcessStart (binaryFile (settingsOf s)) (baseArguments e s @ ?S @ includesOf s)]
      \<and> filter isStartedChecking (effects (checkQueuedFiles e ?f))
          = filter isStartedChecking (effects s) @ [StartedChecking ?S]
      \<and> filter isFileEffect (effects (checkQueuedFiles e ?f)) = filter isFileEffect (effects s)
      \<and> currentlyCheckingFiles (checkQueuedFiles e ?f) = ?S
      \<and> fileCheckQueue (checkQueuedFiles e ?f) = []
      \<and> processIsOpen (checkQueuedFiles e ?f)"
  proof
    assume a: "binaryFile (settingsOf s) \<noteq> []
      \<and> argumentsLength e (s\<lparr>fileCheckQueue := ?S\<rparr>) < maxArgumentsLength s"
    then have b: "binaryFile (settingsOf ?f) \<noteq> []"
      and l: "argumentsLength e ?f < maxArgumentsLength ?f"
      by (simp_all add: killed_finished_frame)
    note d = dispatched_inline [OF q b o l]
    show "filter isProcessStart (effects (checkQueuedFiles e ?f))
          = filter isProcessStart (effects s)
              @ [ProcessStart (binaryFile (settingsOf s)) (baseArguments e s @ ?S @ includesOf s)]
      \<and> filter isStartedChecking (effects (checkQueuedFiles e ?f))
          = filter isStartedChecking (effects s) @ [StartedChecking ?S]
      \<and> filter isFileEffect (effects (checkQueuedFiles e ?f)) = filter isFileEffect (effects s)
      \<and> currentlyCheckingFiles (checkQueuedFiles e ?f) = ?S
      \<and> fileCheckQueue (checkQueuedFiles e ?f) = []
      \<and> processIsOpen (checkQueuedFiles e ?f)"
      using d unfolding killed_finished_frame by blast
  qed
  have rewritten: "binaryFile (settingsOf s) \<noteq> []
      \<and> maxArgumentsLength s \<le> argumentsLength e (s\<lparr>fileCheckQueue := ?S\<rparr>)
      \<and> fileListFileContents s \<noteq> ?S
      \<and> fileListOpen e = Some n \<and> includeListOpen e = Some m \<longrightarrow>
        filter isProcessStart (effects (checkQueuedFiles e ?f))
          = filter isProcessStart (effects s)
              @ [ProcessStart (binaryFile (settingsOf s))
                   (baseArguments e s @ spillArguments (checkQueuedFiles e ?f))]
      \<and> filter isStartedChecking (effects (checkQueuedFiles e ?f))
          = filter isStartedChecking (effects s) @ [StartedChecking ?S]
      \<and> contents (fileListFile (checkQueuedFiles e ?f)) = QStringList_join [CHR 0x0A] ?S
      \<and> contents (includeListFile (checkQueuedFiles e ?f))
          = QStringList_join [CHR 0x0A] (map (\<lambda>i. QString_mid_from i 2) (includesOf s))
      \<and> currentlyCheckingFiles (checkQueuedFiles e ?f) = ?S
      \<and> fileCheckQueue (checkQueuedFiles e ?f) = []
      \<and> processIsOpen (checkQueuedFiles e ?f)"
  proof
    assume a: "binaryFile (settingsOf s) \<noteq> []
      \<and> maxArgumentsLength s \<le> argumentsLength e (s\<lparr>fileCheckQueue := ?S\<rparr>)
      \<and> fileListFileContents s \<noteq> ?S
      \<and> fileListOpen e = Some n \<and> includeListOpen e = Some m"
    then have b: "binaryFile (settingsOf ?f) \<noteq> []"
      and l: "maxArgumentsLength ?f \<le> argumentsLength e ?f"
      and m: "fileListFileContents ?f \<noteq> fileCheckQueue ?f"
      and fo: "fileListOpen e = Some n" and io: "includeListOpen e = Some m"
      by (simp_all add: killed_finished_frame)
    note d = dispatched_rewritten [OF q b o l m fo io]
    show "filter isProcessStart (effects (checkQueuedFiles e ?f))
          = filter isProcessStart (effects s)
              @ [ProcessStart (binaryFile (settingsOf s))
                   (baseArguments e s @ spillArguments (checkQueuedFiles e ?f))]
      \<and> filter isStartedChecking (effects (checkQueuedFiles e ?f))
          = filter isStartedChecking (effects s) @ [StartedChecking ?S]
      \<and> contents (fileListFile (checkQueuedFiles e ?f)) = QStringList_join [CHR 0x0A] ?S
      \<and> contents (includeListFile (checkQueuedFiles e ?f))
          = QStringList_join [CHR 0x0A] (map (\<lambda>i. QString_mid_from i 2) (includesOf s))
      \<and> currentlyCheckingFiles (checkQueuedFiles e ?f) = ?S
      \<and> fileCheckQueue (checkQueuedFiles e ?f) = []
      \<and> processIsOpen (checkQueuedFiles e ?f)"
      using d unfolding killed_finished_frame by blast
  qed
  have kept: "binaryFile (settingsOf s) \<noteq> []
      \<and> maxArgumentsLength s \<le> argumentsLength e (s\<lparr>fileCheckQueue := ?S\<rparr>)
      \<and> fileListFileContents s = ?S \<longrightarrow>
        filter isProcessStart (effects (checkQueuedFiles e ?f))
          = filter isProcessStart (effects s)
              @ [ProcessStart (binaryFile (settingsOf s)) (baseArguments e s @ spillArguments s)]
      \<and> filter isStartedChecking (effects (checkQueuedFiles e ?f))
          = filter isStartedChecking (effects s) @ [StartedChecking ?S]
      \<and> fileListFile (checkQueuedFiles e ?f) = fileListFile s
      \<and> includeListFile (checkQueuedFiles e ?f) = includeListFile s
      \<and> currentlyCheckingFiles (checkQueuedFiles e ?f) = ?S
      \<and> fileCheckQueue (checkQueuedFiles e ?f) = []
      \<and> processIsOpen (checkQueuedFiles e ?f)"
  proof
    assume a: "binaryFile (settingsOf s) \<noteq> []
      \<and> maxArgumentsLength s \<le> argumentsLength e (s\<lparr>fileCheckQueue := ?S\<rparr>)
      \<and> fileListFileContents s = ?S"
    then have b: "binaryFile (settingsOf ?f) \<noteq> []"
      and l: "maxArgumentsLength ?f \<le> argumentsLength e ?f"
      and h: "fileListFileContents ?f = fileCheckQueue ?f"
      by (simp_all add: killed_finished_frame)
    note d = dispatched_kept [OF q b o l h]
    show "filter isProcessStart (effects (checkQueuedFiles e ?f))
          = filter isProcessStart (effects s)
              @ [ProcessStart (binaryFile (settingsOf s)) (baseArguments e s @ spillArguments s)]
      \<and> filter isStartedChecking (effects (checkQueuedFiles e ?f))
          = filter isStartedChecking (effects s) @ [StartedChecking ?S]
      \<and> fileListFile (checkQueuedFiles e ?f) = fileListFile s
      \<and> includeListFile (checkQueuedFiles e ?f) = includeListFile s
      \<and> currentlyCheckingFiles (checkQueuedFiles e ?f) = ?S
      \<and> fileCheckQueue (checkQueuedFiles e ?f) = []
      \<and> processIsOpen (checkQueuedFiles e ?f)"
      using d unfolding killed_finished_frame by blast
  qed
  have failed: "binaryFile (settingsOf s) \<noteq> []
      \<and> maxArgumentsLength s \<le> argumentsLength e (s\<lparr>fileCheckQueue := ?S\<rparr>)
      \<and> fileListFileContents s \<noteq> ?S
      \<and> (fileListOpen e = None \<or> includeListOpen e = None) \<longrightarrow>
        filter isProcessStart (effects (checkQueuedFiles e ?f)) = filter isProcessStart (effects s)
      \<and> filter isStartedChecking (effects (checkQueuedFiles e ?f))
          = filter isStartedChecking (effects s)
      \<and> fileCheckQueue (checkQueuedFiles e ?f) = []
      \<and> \<not> processIsOpen (checkQueuedFiles e ?f)"
  proof
    assume a: "binaryFile (settingsOf s) \<noteq> []
      \<and> maxArgumentsLength s \<le> argumentsLength e (s\<lparr>fileCheckQueue := ?S\<rparr>)
      \<and> fileListFileContents s \<noteq> ?S
      \<and> (fileListOpen e = None \<or> includeListOpen e = None)"
    then have b: "binaryFile (settingsOf ?f) \<noteq> []"
      and l: "maxArgumentsLength ?f \<le> argumentsLength e ?f"
      and m: "fileListFileContents ?f \<noteq> fileCheckQueue ?f"
      and no: "fileListOpen e = None \<or> includeListOpen e = None"
      by (simp_all add: killed_finished_frame)
    note d = dispatched_failed [OF q b o l m no]
    show "filter isProcessStart (effects (checkQueuedFiles e ?f)) = filter isProcessStart (effects s)
      \<and> filter isStartedChecking (effects (checkQueuedFiles e ?f))
          = filter isStartedChecking (effects s)
      \<and> fileCheckQueue (checkQueuedFiles e ?f) = []
      \<and> \<not> processIsOpen (checkQueuedFiles e ?f)"
      using d unfolding killed_finished_frame by blast
  qed
  have unset: "binaryFile (settingsOf s) = [] \<longrightarrow>
        checkQueuedFiles e ?f = ?f
      \<and> filter isProcessStart (effects (checkQueuedFiles e ?f)) = filter isProcessStart (effects s)
      \<and> fileCheckQueue (checkQueuedFiles e ?f) = ?S
      \<and> \<not> processIsOpen (checkQueuedFiles e ?f)"
  proof
    assume "binaryFile (settingsOf s) = []"
    then have "checkQueuedFiles e ?f = ?f"
      by (simp add: checkQueuedFiles_def killed_finished_frame)
    then show "checkQueuedFiles e ?f = ?f
      \<and> filter isProcessStart (effects (checkQueuedFiles e ?f)) = filter isProcessStart (effects s)
      \<and> fileCheckQueue (checkQueuedFiles e ?f) = ?S
      \<and> \<not> processIsOpen (checkQueuedFiles e ?f)"
      by (simp add: killed_finished_frame)
  qed
  from ne cf inline rewritten kept failed unset show ?thesis
    unfolding r by blast
qed

theorem same_set_kill_and_restart_witness:
  "processIsOpen running_a \<and> [''a.cpp''] \<noteq> []
   \<and> sort (removeDuplicates (fileCheckQueue running_a @ [''a.cpp''])) = currentlyCheckingFiles running_a
   \<and> binaryFile (settingsOf running_a) \<noteq> []
   \<and> argumentsLength env_ok (running_a\<lparr>fileCheckQueue := currentlyCheckingFiles running_a\<rparr>)
       < maxArgumentsLength running_a
   \<and> checkFiles [''a.cpp''] running_a
       = Inr (emit ProcessKill (running_a\<lparr>fileCheckQueue := [''a.cpp'']\<rparr>))
   \<and> filter isProcessStart
        (effects (on_process_finished 9 env_ok (projr (checkFiles [''a.cpp''] running_a))))
       = [ProcessStart ''/usr/bin/cppcheck'' (session_arguments @ [''a.cpp'']),
          ProcessStart ''/usr/bin/cppcheck'' (session_arguments @ [''a.cpp''])]
   \<and> filter isStartedChecking
        (effects (on_process_finished 9 env_ok (projr (checkFiles [''a.cpp''] running_a))))
       = [StartedChecking [''a.cpp''], StartedChecking [''a.cpp'']]
   \<and> fileCheckQueue (on_process_finished 9 env_ok (projr (checkFiles [''a.cpp''] running_a))) = []
   \<and> processIsOpen (on_process_finished 9 env_ok (projr (checkFiles [''a.cpp''] running_a)))
   \<and> processIsOpen running_a_big
   \<and> sort (removeDuplicates (fileCheckQueue running_a_big @ [''a.cpp'']))
       = currentlyCheckingFiles running_a_big
   \<and> maxArgumentsLength running_a_big
       \<le> argumentsLength env_ok
            (running_a_big\<lparr>fileCheckQueue := currentlyCheckingFiles running_a_big\<rparr>)
   \<and> fileListFileContents running_a_big \<noteq> currentlyCheckingFiles running_a_big
   \<and> contents (fileListFile
        (on_process_finished 9 env_ok (projr (checkFiles [''a.cpp''] running_a_big)))) = ''a.cpp''
   \<and> contents (includeListFile
        (on_process_finished 9 env_ok (projr (checkFiles [''a.cpp''] running_a_big)))) = bigdir
   \<and> processIsOpen (on_process_finished 9 env_ok (projr (checkFiles [''a.cpp''] running_a_big)))"
proof -
  have ne: "[''a.cpp''] \<noteq> ([] :: string list)" by simp
  have a: "binaryFile (settingsOf running_a) \<noteq> []"
    "argumentsLength env_ok (running_a\<lparr>fileCheckQueue := currentlyCheckingFiles running_a\<rparr>)
       < maxArgumentsLength running_a"
    by (simp_all add: running_a_fields)
  note t = same_set_kill_and_restart [OF running_a_fields(1) ne same_request(1),
      where e = env_ok and exitCode = 9]
  from t have cf: "checkFiles [''a.cpp''] running_a
       = Inr (emit ProcessKill (running_a\<lparr>fileCheckQueue := currentlyCheckingFiles running_a\<rparr>))"
    by blast
  from t a have st: "filter isProcessStart
        (effects (on_process_finished 9 env_ok (projr (checkFiles [''a.cpp''] running_a))))
      = filter isProcessStart (effects running_a)
          @ [ProcessStart (binaryFile (settingsOf running_a))
               (baseArguments env_ok running_a @ currentlyCheckingFiles running_a
                  @ includesOf running_a)]"
    by blast
  from t a have sc: "filter isStartedChecking
        (effects (on_process_finished 9 env_ok (projr (checkFiles [''a.cpp''] running_a))))
       = filter isStartedChecking (effects running_a)
           @ [StartedChecking (currentlyCheckingFiles running_a)]"
    by blast
  from t a have rest:
    "fileCheckQueue (on_process_finished 9 env_ok (projr (checkFiles [''a.cpp''] running_a))) = []"
    "processIsOpen (on_process_finished 9 env_ok (projr (checkFiles [''a.cpp''] running_a)))"
    by blast+
  have c1: "checkFiles [''a.cpp''] running_a
       = Inr (emit ProcessKill (running_a\<lparr>fileCheckQueue := [''a.cpp'']\<rparr>))"
    using cf unfolding running_a_fields .
  have c2: "filter isProcessStart
        (effects (on_process_finished 9 env_ok (projr (checkFiles [''a.cpp''] running_a))))
       = [ProcessStart ''/usr/bin/cppcheck'' (session_arguments @ [''a.cpp'']),
          ProcessStart ''/usr/bin/cppcheck'' (session_arguments @ [''a.cpp''])]"
    unfolding st running_a_fields by simp
  have c3: "filter isStartedChecking
        (effects (on_process_finished 9 env_ok (projr (checkFiles [''a.cpp''] running_a))))
       = [StartedChecking [''a.cpp''], StartedChecking [''a.cpp'']]"
    unfolding sc running_a_fields by simp
  have b: "binaryFile (settingsOf running_a_big) \<noteq> []"
    "maxArgumentsLength running_a_big
       \<le> argumentsLength env_ok
            (running_a_big\<lparr>fileCheckQueue := currentlyCheckingFiles running_a_big\<rparr>)"
    "fileListFileContents running_a_big \<noteq> currentlyCheckingFiles running_a_big"
    by (simp_all add: running_a_big_fields)
  note u = same_set_kill_and_restart [OF running_a_big_fields(1) ne same_request(2),
      where e = env_ok and exitCode = 9 and n = "''/tmp/qtc.a''" and m = "''/tmp/qtc.b''"]
  from u b env_opens(1,2) have fl: "contents (fileListFile
        (on_process_finished 9 env_ok (projr (checkFiles [''a.cpp''] running_a_big))))
      = QStringList_join [CHR 0x0A] (currentlyCheckingFiles running_a_big)"
    by blast
  from u b env_opens(1,2) have il: "contents (includeListFile
        (on_process_finished 9 env_ok (projr (checkFiles [''a.cpp''] running_a_big))))
      = QStringList_join [CHR 0x0A] (map (\<lambda>i. QString_mid_from i 2) (includesOf running_a_big))"
    by blast
  from u b env_opens(1,2) have op:
    "processIsOpen (on_process_finished 9 env_ok (projr (checkFiles [''a.cpp''] running_a_big)))"
    by blast
  have d1: "contents (fileListFile
        (on_process_finished 9 env_ok (projr (checkFiles [''a.cpp''] running_a_big)))) = ''a.cpp''"
    unfolding fl running_a_big_fields by simp
  have d2: "contents (includeListFile
        (on_process_finished 9 env_ok (projr (checkFiles [''a.cpp''] running_a_big)))) = bigdir"
    unfolding il running_a_big_fields by (simp add: strip_flag [simplified])
  from running_a_fields(1) ne same_request a c1 c2 c3 rest running_a_big_fields(1) b(2,3) d1 d2 op
  show ?thesis by blast
qed

text \<open>
  C3 as stated fails: while \<open>a.cpp\<close> is being checked the long include directory
  is set; \<open>a.cpp\<close> is requested again and the process killed; at the finish signal
  the include-list file does not open. Nothing is started, and the queue is empty.
\<close>

theorem restart_aborted_request_lost:
  "processIsOpen running_a_big
   \<and> currentlyCheckingFiles running_a_big = [''a.cpp'']
   \<and> sort (removeDuplicates (fileCheckQueue running_a_big @ [''a.cpp'']))
       = currentlyCheckingFiles running_a_big
   \<and> checkFiles [''a.cpp''] running_a_big
       = Inr (emit ProcessKill (running_a_big\<lparr>fileCheckQueue := [''a.cpp'']\<rparr>))
   \<and> filter isProcessStart
        (effects (on_process_finished 9 env_fail (projr (checkFiles [''a.cpp''] running_a_big))))
       = filter isProcessStart (effects running_a_big)
   \<and> fileCheckQueue (on_process_finished 9 env_fail (projr (checkFiles [''a.cpp''] running_a_big)))
       = []
   \<and> \<not> processIsOpen
         (on_process_finished 9 env_fail (projr (checkFiles [''a.cpp''] running_a_big)))"
proof -
  let ?k = "emit ProcessKill (running_a_big\<lparr>fileCheckQueue := [''a.cpp'']\<rparr>)"
  let ?f = "finished 9 ?k"
  have cf: "checkFiles [''a.cpp''] running_a_big = Inr ?k"
    by (simp add: checkFiles_def Let_def running_a_big_fields removeDuplicates_def)
  have r: "on_process_finished 9 env_fail (projr (checkFiles [''a.cpp''] running_a_big))
      = checkQueuedFiles env_fail ?f"
    by (simp add: cf on_process_finished_def)
  have pre: "fileCheckQueue ?f \<noteq> []" "binaryFile (settingsOf ?f) \<noteq> []" "\<not> processIsOpen ?f"
    "maxArgumentsLength ?f \<le> argumentsLength env_fail ?f"
    "fileListFileContents ?f \<noteq> fileCheckQueue ?f"
    "fileListOpen env_fail = None \<or> includeListOpen env_fail = None"
    by (simp_all add: killed_finished_frame running_a_big_fields env_opens)
  note d = dispatched_failed [OF pre]
  have s1: "filter isProcessStart (effects (checkQueuedFiles env_fail ?f))
      = filter isProcessStart (effects running_a_big)"
    unfolding d(1) killed_finished_frame ..
  have s4: "fileCheckQueue (checkQueuedFiles env_fail ?f) = []"
    and s5: "\<not> processIsOpen (checkQueuedFiles env_fail ?f)"
    using d(4,5) by blast+
  from running_a_big_fields(1,3) same_request(2) cf s1 s4 s5 show ?thesis
    unfolding r by blast
qed

subsection \<open>Scratch files that do not open\<close>

text \<open>
  C1, as amended. When a dispatch takes the scratch-file strategy, has to rewrite
  the files, and one of them does not open, the run is aborted: after the two
  truncations and the attempts to open, the only further effect is the message to
  the log, nothing is started and no \<open>startedChecking\<close> is emitted. The pending
  queue is not kept: it has been moved to \<open>currentlyCheckingFiles\<close> and is empty, so
  a later call of \<open>checkQueuedFiles\<close> changes nothing.
\<close>

theorem scratch_open_failure_aborts:
  assumes "fileCheckQueue s \<noteq> []" and "binaryFile (settingsOf s) \<noteq> []"
    and "maxArgumentsLength s \<le> argumentsLength e s"
    and "fileListFileContents s \<noteq> fileCheckQueue s"
    and "fileListOpen e = None \<or> includeListOpen e = None"
  shows "effects (checkQueuedFiles e s)
           = effects s @ [FileResize FileList, FileResize IncludeList]
               @ (case fileListOpen e of None \<Rightarrow> [FileOpen FileList False]
                  | Some n \<Rightarrow> [FileOpen FileList True, FileOpen IncludeList False])
               @ [LogWrite (''Failed to write cppcheck'' @ [CHR 0x27] @ ''s argument files'')]
       \<and> processIsOpen (checkQueuedFiles e s) = processIsOpen s
       \<and> fileCheckQueue (checkQueuedFiles e s) = []
       \<and> currentlyCheckingFiles (checkQueuedFiles e s) = fileCheckQueue s
       \<and> checkQueuedFiles e' (checkQueuedFiles e s) = checkQueuedFiles e s"
proof -
  let ?s0 = "s\<lparr>currentlyCheckingFiles := fileCheckQueue s, fileCheckQueue := [],
                 fileListFileContents := fileCheckQueue s\<rparr>"
  let ?msg = "LogWrite (''Failed to write cppcheck'' @ [CHR 0x27] @ ''s argument files'')"
  have run: "checkQueuedFiles e s = emit ?msg (snd (openFiles e (resizeFiles ?s0)))"
    using assms by (rule checkQueuedFiles_failed)
  note st = failed_open_state [OF assms(5), of ?s0]
  have q: "fileCheckQueue (checkQueuedFiles e s) = []"
    using st by (simp add: run emit_def)
  have again: "checkQueuedFiles e' (checkQueuedFiles e s) = checkQueuedFiles e s"
    using q by (simp add: checkQueuedFiles_def)
  from st q again show ?thesis
    by (simp add: run emit_def)
qed

theorem scratch_open_failure_aborts_witness:
  "fileCheckQueue queued_big \<noteq> [] \<and> binaryFile (settingsOf queued_big) \<noteq> []
   \<and> maxArgumentsLength queued_big \<le> argumentsLength env_fail queued_big
   \<and> fileListFileContents queued_big \<noteq> fileCheckQueue queued_big
   \<and> includeListOpen env_fail = None
   \<and> effects (checkQueuedFiles env_fail queued_big)
       = [TimerSingleShot 200, FileResize FileList, FileResize IncludeList,
          FileOpen FileList True, FileOpen IncludeList False,
          LogWrite (''Failed to write cppcheck'' @ [CHR 0x27] @ ''s argument files'')]
   \<and> \<not> processIsOpen (checkQueuedFiles env_fail queued_big)
   \<and> fileCheckQueue (checkQueuedFiles env_fail queued_big) = []
   \<and> currentlyCheckingFiles (checkQueuedFiles env_fail queued_big) = [''a.cpp'']
   \<and> checkQueuedFiles env_ok (checkQueuedFiles env_fail queued_big)
       = checkQueuedFiles env_fail queued_big"
proof -
  have h: "fileCheckQueue queued_big \<noteq> []" "binaryFile (settingsOf queued_big) \<noteq> []"
    "maxArgumentsLength queued_big \<le> argumentsLength env_fail queued_big"
    "fileListFileContents queued_big \<noteq> fileCheckQueue queued_big"
    "fileListOpen env_fail = None \<or> includeListOpen env_fail = None"
    by (simp_all add: queued_big_fields queued_big_length env_opens)
  have e0: "effects queued_big = [TimerSingleShot 200]"
    by (simp add: queued_big_eq)
  from scratch_open_failure_aborts [OF h, of env_ok] h show ?thesis
    by (simp add: queued_big_fields env_opens e0)
qed

text \<open>
  C1 as stated fails: after the failure the queue that held \<open>a.cpp\<close> is empty, and
  the next trigger, with files that would open, does nothing.
\<close>

theorem scratch_open_failure_loses_queue:
  "fileCheckQueue queued_big = [''a.cpp'']
   \<and> maxArgumentsLength queued_big \<le> argumentsLength env_fail queued_big
   \<and> includeListOpen env_fail = None
   \<and> fileCheckQueue (on_timer env_fail queued_big) = []
   \<and> on_timer env_ok (on_timer env_fail queued_big) = on_timer env_fail queued_big"
proof -
  let ?s0 = "queued_big\<lparr>currentlyCheckingFiles := fileCheckQueue queued_big, fileCheckQueue := [],
                 fileListFileContents := fileCheckQueue queued_big\<rparr>"
  have run: "checkQueuedFiles env_fail queued_big =
           emit (LogWrite (''Failed to write cppcheck'' @ [CHR 0x27] @ ''s argument files''))
             (snd (openFiles env_fail (resizeFiles ?s0)))"
    by (rule checkQueuedFiles_failed) (simp_all add: queued_big_fields queued_big_length env_opens)
  have q: "fileCheckQueue (on_timer env_fail queued_big) = []"
    unfolding on_timer_def run
    by (simp add: emit_def openFiles_def resizeFiles_def env_opens Let_def)
  have again: "on_timer env_ok (on_timer env_fail queued_big) = on_timer env_fail queued_big"
    using q by (simp add: on_timer_def checkQueuedFiles_def)
  from q again show ?thesis
    by (simp add: queued_big_fields queued_big_length env_opens)
qed

lemma failed_big_eq:
  "failed_big = idle\<lparr>includePaths := [''-I'' @ bigdir], currentlyCheckingFiles := [''a.cpp''],
       fileListFileContents := [''a.cpp''],
       fileListFile := \<lparr>fileName = ''/tmp/qtc.a'', contents = []\<rparr>,
       effects := [TimerSingleShot 200, FileResize FileList, FileResize IncludeList,
         FileOpen FileList True, FileOpen IncludeList False,
         LogWrite (''Failed to write cppcheck'' @ [CHR 0x27] @ ''s argument files'')]\<rparr>"
proof -
  have "checkQueuedFiles env_fail queued_big =
           emit (LogWrite (''Failed to write cppcheck'' @ [CHR 0x27] @ ''s argument files''))
             (snd (openFiles env_fail (resizeFiles
                (queued_big\<lparr>currentlyCheckingFiles := fileCheckQueue queued_big,
                    fileCheckQueue := [],
                    fileListFileContents := fileCheckQueue queued_big\<rparr>))))"
    by (rule checkQueuedFiles_failed) (simp_all add: queued_big_fields queued_big_length env_opens)
  then show ?thesis
    unfolding failed_big_def on_timer_def queued_big_fields
    by (simp add: emit_def resizeFiles_def openFiles_def named_def env_opens Let_def
        queued_big_eq idle_eq)
qed

lemma requeued_big_eq:
  "requeued_big = failed_big\<lparr>fileCheckQueue := [''a.cpp''],
       effects := effects failed_big @ [TimerSingleShot 200]\<rparr>"
  by (simp add: requeued_big_def checkFiles_def emit_def removeDuplicates_def Let_def
      failed_big_eq idle_eq)

text \<open>
  After a failed rewrite the dispatched list is already recorded, so a later
  dispatch of the same list does not write the files: the process is started on a
  file-list file that is empty and an include-list file that was never created.
\<close>

lemma retry_after_failure_skips_rewrite:
  "filter isProcessStart (effects (on_timer env_ok requeued_big))
     = [ProcessStart ''/usr/bin/cppcheck''
          (session_arguments @ [''--file-list=/tmp/qtc.a'', ''--includes-file=''])]
   \<and> contents (fileListFile (on_timer env_ok requeued_big)) = []
   \<and> contents (includeListFile (on_timer env_ok requeued_big)) = []"
proof -
  have f: "fileCheckQueue requeued_big = [''a.cpp'']"
    "binaryFile (settingsOf requeued_big) = ''/usr/bin/cppcheck''"
    "fileListFileContents requeued_big = [''a.cpp'']"
    "maxArgumentsLength requeued_big = 32767"
    "\<not> processIsOpen requeued_big"
    "baseArguments env_ok requeued_big = session_arguments"
    "argumentsLength env_ok requeued_big = 32933"
    "spillArguments requeued_big = [''--file-list=/tmp/qtc.a'', ''--includes-file='']"
    "filter isProcessStart (effects requeued_big) = []"
    "contents (fileListFile requeued_big) = []"
    "contents (includeListFile requeued_big) = []"
    by (simp_all add: requeued_big_eq failed_big_eq idle_eq cfg_def includesOf_def
        baseArguments_def argumentsLength_def spillArguments_def QString_split_skipEmpty_def
        Let_def env_ok_def length_bigdir session_arguments_def)
  let ?s1 = "requeued_big\<lparr>currentlyCheckingFiles := fileCheckQueue requeued_big,
               fileCheckQueue := []\<rparr>"
  have run: "checkQueuedFiles env_ok requeued_big =
      launch (binaryFile (settingsOf requeued_big))
        (baseArguments env_ok requeued_big @ spillArguments ?s1) ?s1"
    by (rule checkQueuedFiles_kept) (simp_all add: f)
  have sp: "spillArguments ?s1 = spillArguments requeued_big"
    by (simp add: spillArguments_def)
  have closed: "\<not> processIsOpen ?s1" by (simp add: f)
  show ?thesis
    unfolding on_timer_def run launch_starts [OF closed] launch_fields sp
    by (simp add: f)
qed

subsection \<open>Inline arguments or scratch files\<close>





subsection \<open>When the scratch files are rewritten\<close>

text \<open>
  C5, as amended. On a dispatch that takes the scratch-file strategy, one test
  decides for both files: when the dispatched file list equals the list recorded
  at the last truncation, neither file is touched; when it differs, both files are
  truncated and the dispatched list is recorded, and when both files then open,
  both are written, the include-list file whatever it held before.
\<close>

theorem scratch_rewrite_guard:
  assumes "fileCheckQueue s \<noteq> []" and "binaryFile (settingsOf s) \<noteq> []"
    and "maxArgumentsLength s \<le> argumentsLength e s"
  shows "(fileListFileContents s = fileCheckQueue s \<longrightarrow>
            fileListFile (checkQueuedFiles e s) = fileListFile s
          \<and> includeListFile (checkQueuedFiles e s) = includeListFile s
          \<and> filter isFileEffect (effects (checkQueuedFiles e s)) = filter isFileEffect (effects s))
       \<and> (fileListFileContents s \<noteq> fileCheckQueue s \<longrightarrow>
            (\<exists>rest. filter isFileEffect (effects (checkQueuedFiles e s))
                      = filter isFileEffect (effects s)
                          @ FileResize FileList # FileResize IncludeList # rest)
          \<and> fileListFileContents (checkQueuedFiles e s) = fileCheckQueue s)
       \<and> (fileListFileContents s \<noteq> fileCheckQueue s
            \<and> fileListOpen e = Some n \<and> includeListOpen e = Some m \<longrightarrow>
            filter isFileEffect (effects (checkQueuedFiles e s))
              = filter isFileEffect (effects s)
                  @ [FileResize FileList, FileResize IncludeList,
                     FileOpen FileList True, FileOpen IncludeList True,
                     FileWrite FileList (QStringList_join [CHR 0x0A] (fileCheckQueue s)),
                     FileClose FileList,
                     FileWrite IncludeList
                       (QStringList_join [CHR 0x0A]
                          (map (\<lambda>i. QString_mid_from i 2) (includesOf s))),
                     FileClose IncludeList])"
proof (intro conjI impI)
  assume hit: "fileListFileContents s = fileCheckQueue s"
  let ?s1 = "s\<lparr>currentlyCheckingFiles := fileCheckQueue s, fileCheckQueue := []\<rparr>"
  have run: "checkQueuedFiles e s =
      launch (binaryFile (settingsOf s)) (baseArguments e s @ spillArguments ?s1) ?s1"
    using assms hit by (rule checkQueuedFiles_kept)
  show "fileListFile (checkQueuedFiles e s) = fileListFile s"
    and "includeListFile (checkQueuedFiles e s) = includeListFile s"
    and "filter isFileEffect (effects (checkQueuedFiles e s)) = filter isFileEffect (effects s)"
    by (simp_all add: run launch_fields launch_file_effects)
next
  assume miss: "fileListFileContents s \<noteq> fileCheckQueue s"
  let ?s0 = "s\<lparr>currentlyCheckingFiles := fileCheckQueue s, fileCheckQueue := [],
                 fileListFileContents := fileCheckQueue s\<rparr>"
  show "\<exists>rest. filter isFileEffect (effects (checkQueuedFiles e s))
                = filter isFileEffect (effects s)
                    @ FileResize FileList # FileResize IncludeList # rest"
  proof (cases "fileListOpen e = None \<or> includeListOpen e = None")
    case True
    have run: "checkQueuedFiles e s =
        emit (LogWrite (''Failed to write cppcheck'' @ [CHR 0x27] @ ''s argument files''))
          (snd (openFiles e (resizeFiles ?s0)))"
      using assms miss True by (rule checkQueuedFiles_failed)
    note st = failed_open_state [OF True, of ?s0]
    show ?thesis
      using st by (simp add: run emit_def split: option.splits)
  next
    case False
    then obtain n' m' where o: "fileListOpen e = Some n'" "includeListOpen e = Some m'"
      by auto
    let ?s4 = "writeFiles (includesOf s) (snd (openFiles e (resizeFiles ?s0)))"
    have run: "checkQueuedFiles e s =
        launch (binaryFile (settingsOf s)) (baseArguments e s @ spillArguments ?s4) ?s4"
      using checkQueuedFiles_rewritten [OF assms miss o] by (simp add: Let_def)
    note st = rewritten_state [OF o, of "includesOf s" ?s0]
    show ?thesis
      by (simp add: run launch_file_effects st(3))
  qed
  show "fileListFileContents (checkQueuedFiles e s) = fileCheckQueue s"
  proof (cases "fileListOpen e = None \<or> includeListOpen e = None")
    case True
    have run: "checkQueuedFiles e s =
        emit (LogWrite (''Failed to write cppcheck'' @ [CHR 0x27] @ ''s argument files''))
          (snd (openFiles e (resizeFiles ?s0)))"
      using assms miss True by (rule checkQueuedFiles_failed)
    show ?thesis
      by (auto simp: run emit_def openFiles_def resizeFiles_def Let_def split: option.splits)
  next
    case False
    then obtain n' m' where o: "fileListOpen e = Some n'" "includeListOpen e = Some m'"
      by auto
    let ?s4 = "writeFiles (includesOf s) (snd (openFiles e (resizeFiles ?s0)))"
    have run: "checkQueuedFiles e s =
        launch (binaryFile (settingsOf s)) (baseArguments e s @ spillArguments ?s4) ?s4"
      using checkQueuedFiles_rewritten [OF assms miss o] by (simp add: Let_def)
    note st = rewritten_state [OF o, of "includesOf s" ?s0]
    show ?thesis
      by (simp add: run launch_fields st(7))
  qed
next
  assume a: "fileListFileContents s \<noteq> fileCheckQueue s
            \<and> fileListOpen e = Some n \<and> includeListOpen e = Some m"
  let ?s0 = "s\<lparr>currentlyCheckingFiles := fileCheckQueue s, fileCheckQueue := [],
                 fileListFileContents := fileCheckQueue s\<rparr>"
  let ?s4 = "writeFiles (includesOf s) (snd (openFiles e (resizeFiles ?s0)))"
  have o: "fileListOpen e = Some n" "includeListOpen e = Some m" using a by simp_all
  have run: "checkQueuedFiles e s =
      launch (binaryFile (settingsOf s)) (baseArguments e s @ spillArguments ?s4) ?s4"
    using checkQueuedFiles_rewritten [OF assms _ o] a by (simp add: Let_def)
  note st = rewritten_state [OF o, of "includesOf s" ?s0]
  show "filter isFileEffect (effects (checkQueuedFiles e s))
      = filter isFileEffect (effects s)
          @ [FileResize FileList, FileResize IncludeList,
             FileOpen FileList True, FileOpen IncludeList True,
             FileWrite FileList (QStringList_join [CHR 0x0A] (fileCheckQueue s)),
             FileClose FileList,
             FileWrite IncludeList
               (QStringList_join [CHR 0x0A] (map (\<lambda>i. QString_mid_from i 2) (includesOf s))),
             FileClose IncludeList]"
    by (simp add: run launch_file_effects st(3))
qed

theorem scratch_rewrite_guard_witness:
  "fileCheckQueue queued_a_again \<noteq> [] \<and> binaryFile (settingsOf queued_a_again) \<noteq> []
   \<and> maxArgumentsLength queued_a_again \<le> argumentsLength env_ok queued_a_again
   \<and> fileListFileContents queued_a_again = fileCheckQueue queued_a_again
   \<and> fileListFile (checkQueuedFiles env_ok queued_a_again) = fileListFile queued_a_again
   \<and> includeListFile (checkQueuedFiles env_ok queued_a_again) = includeListFile queued_a_again
   \<and> filter isFileEffect (effects (checkQueuedFiles env_ok queued_a_again))
       = filter isFileEffect (effects queued_a_again)
   \<and> fileCheckQueue queued_b_after \<noteq> [] \<and> binaryFile (settingsOf queued_b_after) \<noteq> []
   \<and> maxArgumentsLength queued_b_after \<le> argumentsLength env_ok queued_b_after
   \<and> fileListFileContents queued_b_after \<noteq> fileCheckQueue queued_b_after
   \<and> fileListOpen env_ok = Some ''/tmp/qtc.a'' \<and> includeListOpen env_ok = Some ''/tmp/qtc.b''
   \<and> fileListFileContents (checkQueuedFiles env_ok queued_b_after) = [''b.cpp'']
   \<and> filter isFileEffect (effects (checkQueuedFiles env_ok queued_b_after))
       = filter isFileEffect (effects queued_b_after)
           @ [FileResize FileList, FileResize IncludeList,
              FileOpen FileList True, FileOpen IncludeList True,
              FileWrite FileList ''b.cpp'', FileClose FileList,
              FileWrite IncludeList bigdir, FileClose IncludeList]"
proof -
  have a: "fileCheckQueue queued_a_again \<noteq> []" "binaryFile (settingsOf queued_a_again) \<noteq> []"
    "maxArgumentsLength queued_a_again \<le> argumentsLength env_ok queued_a_again"
    by (simp_all add: queued_a_again_fields)
  have a': "fileListFileContents queued_a_again = fileCheckQueue queued_a_again"
    by (simp add: queued_a_again_fields)
  from scratch_rewrite_guard [OF a] a'
  have r1: "fileListFile (checkQueuedFiles env_ok queued_a_again) = fileListFile queued_a_again"
    "includeListFile (checkQueuedFiles env_ok queued_a_again) = includeListFile queued_a_again"
    "filter isFileEffect (effects (checkQueuedFiles env_ok queued_a_again))
       = filter isFileEffect (effects queued_a_again)"
    by blast+
  have b: "fileCheckQueue queued_b_after \<noteq> []" "binaryFile (settingsOf queued_b_after) \<noteq> []"
    "maxArgumentsLength queued_b_after \<le> argumentsLength env_ok queued_b_after"
    by (simp_all add: queued_b_after_fields)
  have b': "fileListFileContents queued_b_after \<noteq> fileCheckQueue queued_b_after"
    by (simp add: queued_b_after_fields)
  note t = scratch_rewrite_guard [OF b, of "''/tmp/qtc.a''" "''/tmp/qtc.b''"]
  from t b' have r2: "fileListFileContents (checkQueuedFiles env_ok queued_b_after)
      = fileCheckQueue queued_b_after"
    by blast
  from t b' env_opens(1,2)
  have r3: "filter isFileEffect (effects (checkQueuedFiles env_ok queued_b_after))
       = filter isFileEffect (effects queued_b_after)
           @ [FileResize FileList, FileResize IncludeList,
              FileOpen FileList True, FileOpen IncludeList True,
              FileWrite FileList (QStringList_join [CHR 0x0A] (fileCheckQueue queued_b_after)),
              FileClose FileList,
              FileWrite IncludeList
                (QStringList_join [CHR 0x0A]
                   (map (\<lambda>i. QString_mid_from i 2) (includesOf queued_b_after))),
              FileClose IncludeList]"
    by blast
  have r2': "fileListFileContents (checkQueuedFiles env_ok queued_b_after) = [''b.cpp'']"
    unfolding r2 by (simp add: queued_b_after_fields)
  have r3': "filter isFileEffect (effects (checkQueuedFiles env_ok queued_b_after))
       = filter isFileEffect (effects queued_b_after)
           @ [FileResize FileList, FileResize IncludeList,
              FileOpen FileList True, FileOpen IncludeList True,
              FileWrite FileList ''b.cpp'', FileClose FileList,
              FileWrite IncludeList bigdir, FileClose IncludeList]"
    unfolding r3 by (simp add: queued_b_after_fields strip_flag [simplified])
  from a a' r1 b b' env_opens(1,2) r2' r3' show ?thesis
    by blast
qed

text \<open>
  C5 as stated fails for the include-list file: it holds the long include
  directory, the include directories have not changed, and the dispatch of another
  file truncates it and writes the same text again.
\<close>

theorem include_list_rewritten_unchanged:
  "maxArgumentsLength queued_b_after \<le> argumentsLength env_ok queued_b_after
   \<and> contents (includeListFile queued_b_after) = bigdir
   \<and> effects (on_timer env_ok queued_b_after)
       = effects queued_b_after
           @ [FileResize FileList, FileResize IncludeList,
              FileOpen FileList True, FileOpen IncludeList True,
              FileWrite FileList ''b.cpp'', FileClose FileList,
              FileWrite IncludeList bigdir, FileClose IncludeList,
              StartedChecking [''b.cpp''],
              ProcessStart ''/usr/bin/cppcheck''
                (session_arguments @ [''--file-list=/tmp/qtc.a'', ''--includes-file=/tmp/qtc.b''])]"
proof -
  let ?s0 = "queued_b_after\<lparr>currentlyCheckingFiles := fileCheckQueue queued_b_after,
               fileCheckQueue := [], fileListFileContents := fileCheckQueue queued_b_after\<rparr>"
  let ?s4 = "writeFiles (includesOf queued_b_after) (snd (openFiles env_ok (resizeFiles ?s0)))"
  have "checkQueuedFiles env_ok queued_b_after =
      (let s4 = ?s4 in launch (binaryFile (settingsOf queued_b_after))
                         (baseArguments env_ok queued_b_after @ spillArguments s4) s4)"
    by (rule checkQueuedFiles_rewritten [where n = "''/tmp/qtc.a''" and m = "''/tmp/qtc.b''"])
       (simp_all add: queued_b_after_fields env_opens)
  then have run: "checkQueuedFiles env_ok queued_b_after =
      launch (binaryFile (settingsOf queued_b_after))
        (baseArguments env_ok queued_b_after @ spillArguments ?s4) ?s4"
    by (simp add: Let_def)
  note st = rewritten_state [OF env_opens(1) env_opens(2), of "includesOf queued_b_after" ?s0]
  have names: "spillArguments ?s4 = [''--file-list=/tmp/qtc.a'', ''--includes-file=/tmp/qtc.b'']"
    unfolding spillArguments_def st by (simp add: queued_b_after_fields)
  have eff4: "effects ?s4 = effects queued_b_after
           @ [FileResize FileList, FileResize IncludeList,
              FileOpen FileList True, FileOpen IncludeList True,
              FileWrite FileList ''b.cpp'', FileClose FileList,
              FileWrite IncludeList bigdir, FileClose IncludeList]"
    unfolding st by (simp add: queued_b_after_fields strip_flag [simplified])
  have flags: "\<not> processIsOpen ?s4" "\<not> showOutput ?s4" "currentlyCheckingFiles ?s4 = [''b.cpp'']"
    unfolding st
    by (simp_all add: queued_b_after_fields writeFiles_def openFiles_def resizeFiles_def emit_def
        env_opens Let_def)
  have eff: "effects (on_timer env_ok queued_b_after)
       = effects ?s4 @ [StartedChecking [''b.cpp''],
           ProcessStart ''/usr/bin/cppcheck''
             (session_arguments @ [''--file-list=/tmp/qtc.a'', ''--includes-file=/tmp/qtc.b''])]"
    unfolding on_timer_def run names
    using flags by (simp add: launch_def process_start_def emit_def Let_def queued_b_after_fields)
  show ?thesis
    unfolding eff eff4 by (simp add: queued_b_after_fields)
qed

end
